theory Spec2Isabelle
  imports Complex_Main "HOL-Library.Signed_Division"
begin

section \<open>The still-image decoder (app/codec/oiio/oiiodecoder.cpp)\<close>

text \<open>
  OpenImageIO's pixel type descriptor. \<open>Open\<close> tests four of its values; every other
  descriptor (INT8, UINT32, DOUBLE, ...) is \<open>OtherTypeDesc\<close>.
\<close>

datatype TypeDesc = UINT8 | UINT16 | HALF | FLOAT | OtherTypeDesc nat

datatype PixelFormat =
    PIX_FMT_RGB8 | PIX_FMT_RGBA8
  | PIX_FMT_RGB16U | PIX_FMT_RGBA16U
  | PIX_FMT_RGB16F | PIX_FMT_RGBA16F
  | PIX_FMT_RGB32F | PIX_FMT_RGBA32F

text \<open>\<open>OIIO::ImageSpec\<close>, the fields the decoder reads. Dimensions are C++ \<open>int\<close>.\<close>

record ImageSpec =
  spec_width :: int
  spec_height :: int
  nchannels :: int
  format :: TypeDesc

text \<open>\<open>Decoder::RetrieveState\<close>.\<close>

datatype RetrieveState = kNotReady | kReady | kFailedToOpen

text \<open>A \<open>Frame\<close>: what \<open>set_width\<close>, \<open>set_height\<close> and \<open>set_format\<close> store. The pixel
  data that \<open>allocate\<close> and \<open>ImageBufAlgo::resize\<close> fill is not modelled; a failed
  resize only prints a warning and the frame is returned all the same.\<close>

record Frame =
  frame_width :: int
  frame_height :: int
  frame_format :: PixelFormat

type_synonym FramePtr = "Frame option"

text \<open>
  The decoder object. \<open>m_image\<close> is the open \<open>ImageInput\<close> (represented by the spec it
  reports) or \<open>nullptr\<close>; \<open>m_buffer\<close> is the \<open>ImageBuf\<close> (represented by the spec it was
  built with) or \<open>nullptr\<close>. \<open>m_open\<close> and the stream belong to the base class
  \<open>Decoder\<close>; of the stream only the footage's file name is used here. A member that
  the source writes with a trailing underscore (\<open>open_\<close>) is written with the prefix
  \<open>m_\<close> (\<open>m_open\<close>), here and below.
\<close>

record OIIODecoder =
  m_image :: "ImageSpec option"
  m_buffer :: "ImageSpec option"
  m_width :: int
  m_height :: int
  m_is_rgba :: bool
  m_pix_fmt :: PixelFormat
  m_type :: TypeDesc
  m_open :: bool
  stream_filename :: string

text \<open>\<open>kRGBAChannels\<close> of common/define.h (a header that is not part of these sources): the
  number of channels of an RGBA image.\<close>

definition kRGBAChannels :: int where
  "kRGBAChannels = 4"

text \<open>\<open>PixelFormat::GetOIIOTypeDesc\<close> on the eight formats \<open>Open\<close> can select. Its body is
  not part of these sources; the mapping is the one the format names say, and no
  property below depends on it.\<close>

fun GetOIIOTypeDesc :: "PixelFormat \<Rightarrow> TypeDesc" where
  "GetOIIOTypeDesc PIX_FMT_RGB8 = UINT8"
| "GetOIIOTypeDesc PIX_FMT_RGBA8 = UINT8"
| "GetOIIOTypeDesc PIX_FMT_RGB16U = UINT16"
| "GetOIIOTypeDesc PIX_FMT_RGBA16U = UINT16"
| "GetOIIOTypeDesc PIX_FMT_RGB16F = HALF"
| "GetOIIOTypeDesc PIX_FMT_RGBA16F = HALF"
| "GetOIIOTypeDesc PIX_FMT_RGB32F = FLOAT"
| "GetOIIOTypeDesc PIX_FMT_RGBA32F = FLOAT"

text \<open>
  The constructor sets \<open>m_image\<close> and \<open>m_buffer\<close> to \<open>nullptr\<close>; the base class starts with
  \<open>m_open = false\<close>. The other members are left uninitialised, so a constructed decoder
  is any record satisfying this predicate.
\<close>

definition constructed :: "OIIODecoder \<Rightarrow> bool" where
  "constructed d = (m_image d = None \<and> m_buffer d = None \<and> \<not> m_open d)"

text \<open>
  \<open>OIIODecoder::Open\<close>. The first argument stands for \<open>OIIO::ImageInput::open\<close>: the spec
  of the image file of that name, or \<open>None\<close> when the file cannot be opened. The result
  is the returned \<open>bool\<close> and the decoder afterwards. On an unsupported pixel type the
  function returns false after it has stored \<open>m_image\<close>, the dimensions and \<open>m_is_rgba\<close>.
\<close>

definition Open :: "(string \<Rightarrow> ImageSpec option) \<Rightarrow> OIIODecoder \<Rightarrow> bool \<times> OIIODecoder" where
  "Open image_open d =
    (let d1 = d\<lparr>m_image := image_open (stream_filename d)\<rparr> in
     case m_image d1 of
       None \<Rightarrow> (False, d1)
     | Some spec \<Rightarrow>
        (let d2 = d1\<lparr>m_width := spec_width spec, m_height := spec_height spec\<rparr>;
             d3 = d2\<lparr>m_is_rgba := (nchannels spec = kRGBAChannels)\<rparr>;
             fmt =
               (if format spec = UINT8 then
                  Some (if m_is_rgba d3 then PIX_FMT_RGBA8 else PIX_FMT_RGB8)
                else if format spec = UINT16 then
                  Some (if m_is_rgba d3 then PIX_FMT_RGBA16U else PIX_FMT_RGB16U)
                else if format spec = HALF then
                  Some (if m_is_rgba d3 then PIX_FMT_RGBA16F else PIX_FMT_RGB16F)
                else if format spec = FLOAT then
                  Some (if m_is_rgba d3 then PIX_FMT_RGBA32F else PIX_FMT_RGB32F)
                else None)
         in case fmt of
              None \<Rightarrow> (False, d3)
            | Some pf \<Rightarrow>
               (let d4 = d3\<lparr>m_pix_fmt := pf\<rparr>;
                    d5 = d4\<lparr>m_type := GetOIIOTypeDesc (m_pix_fmt d4)\<rparr>;
                    d6 = d5\<lparr>m_buffer :=
                           Some \<lparr>spec_width = spec_width spec, spec_height = spec_height spec,
                                 nchannels = nchannels spec, format = m_type d5\<rparr>\<rparr>
                in (True, d6\<lparr>m_open := True\<rparr>))))"

text \<open>\<open>OIIODecoder::GetRetrieveState\<close>. The time argument is not used by the body.\<close>

definition GetRetrieveState :: "OIIODecoder \<Rightarrow> rat \<Rightarrow> RetrieveState" where
  "GetRetrieveState d time = (if \<not> m_open d then kFailedToOpen else kReady)"

text \<open>
  What stops \<open>RetrieveVideo\<close> instead of returning: the integer division traps on a zero
  divider (and on \<open>INT_MIN / -1\<close>), and \<open>m_buffer->spec()\<close> dereferences \<open>m_buffer\<close>.
\<close>

datatype fault = ArithmeticFault | NullDereference

definition INT_MIN :: int where
  "INT_MIN = - (2 ^ 31)"

text \<open>C++ \<open>int / int\<close>: truncation towards zero, undefined on a zero divisor and on
  \<open>INT_MIN / -1\<close>.\<close>

definition int_div :: "int \<Rightarrow> int \<Rightarrow> fault + int" where
  "int_div a b =
    (if b = 0 \<or> (a = INT_MIN \<and> b = - 1) then Inl ArithmeticFault else Inr (a sdiv b))"

text \<open>\<open>OIIODecoder::RetrieveVideo\<close>: \<open>Inr None\<close> is the returned \<open>nullptr\<close>.\<close>

definition RetrieveVideo :: "OIIODecoder \<Rightarrow> rat \<Rightarrow> int \<Rightarrow> fault + FramePtr" where
  "RetrieveVideo d timecode divider =
    (if \<not> m_open d then Inr None
     else case int_div (m_width d) divider of
       Inl e \<Rightarrow> Inl e
     | Inr w \<Rightarrow>
        (case int_div (m_height d) divider of
           Inl e \<Rightarrow> Inl e
         | Inr h \<Rightarrow>
            (case m_buffer d of
               None \<Rightarrow> Inl NullDereference
             | Some b \<Rightarrow>
                Inr (Some \<lparr>frame_width = w, frame_height = h, frame_format = m_pix_fmt d\<rparr>))))"

text \<open>\<open>OIIODecoder::Close\<close>: releases the image and the buffer. It does not touch
  \<open>m_open\<close>.\<close>

definition Close :: "OIIODecoder \<Rightarrow> OIIODecoder" where
  "Close d = d\<lparr>m_image := None, m_buffer := None\<rparr>"

text \<open>A history of calls on one decoder object, each \<open>Open\<close> with what the file system
  answers at that moment.\<close>

datatype DecoderCall =
    CallOpen "string \<Rightarrow> ImageSpec option"
  | CallGetRetrieveState rat
  | CallRetrieveVideo rat int
  | CallClose

fun call :: "OIIODecoder \<Rightarrow> DecoderCall \<Rightarrow> OIIODecoder" where
  "call d (CallOpen image_open) = snd (Open image_open d)"
| "call d (CallGetRetrieveState t) = d"
| "call d (CallRetrieveVideo t divider) = d"
| "call d CallClose = Close d"

fun opened_by :: "OIIODecoder \<Rightarrow> DecoderCall \<Rightarrow> bool" where
  "opened_by d (CallOpen image_open) = fst (Open image_open d)"
| "opened_by d _ = False"

text \<open>\<open>ever_opened d cs\<close>: some \<open>Open\<close> of the history \<open>cs\<close>, run from \<open>d\<close>, returned true.\<close>

fun ever_opened :: "OIIODecoder \<Rightarrow> DecoderCall list \<Rightarrow> bool" where
  "ever_opened d [] = False"
| "ever_opened d (c # cs) = (opened_by d c \<or> ever_opened (call d c) cs)"

section \<open>The render worker (app/render/backend/renderworker.cpp)\<close>

subsection \<open>Data the worker handles\<close>

text \<open>\<open>TimeRange\<close>: \<open>tr_in\<close> is \<open>in()\<close>, \<open>tr_out\<close> is \<open>out()\<close>; times are exact rationals.\<close>

record TimeRange =
  tr_in :: rat
  tr_out :: rat

text \<open>
  A \<open>Stream\<close> object: \<open>stream_ptr\<close> is its address (what \<open>stream.get()\<close> returns, the key
  of the decoder cache), \<open>footage_decoder\<close> is \<open>footage()->decoder()\<close>, \<open>footage_filename\<close>
  is \<open>footage()->filename()\<close>, \<open>stream_index\<close> is \<open>index()\<close>. A \<open>StreamPtr\<close> may be null.
\<close>

record Stream =
  stream_ptr :: nat
  footage_decoder :: string
  footage_filename :: string
  stream_index :: int

type_synonym StreamPtr = "Stream option"

text \<open>\<open>NodeParam::DataType\<close>: the worker tests for \<open>kFootage\<close> only.\<close>

datatype DataType = kFootage | kOtherType nat

text \<open>A \<open>QVariant\<close>: \<open>value<StreamPtr>()\<close> yields the stored pointer when the variant holds
  one and a null pointer otherwise.\<close>

datatype QVariant = QInvalid | QInt int | QRational rat | QStreamPtr StreamPtr | QOther nat

fun value_StreamPtr :: "QVariant \<Rightarrow> StreamPtr" where
  "value_StreamPtr (QStreamPtr sp) = sp"
| "value_StreamPtr _ = None"

text \<open>Modelled from the spec: \<open>NodeValueTable\<close> (its class is not part of these sources) is
  an ordered sequence of (data type, value) entries, and \<open>Push\<close> appends an entry.\<close>

type_synonym NodeValueTable = "(DataType \<times> QVariant) list"

definition Push :: "DataType \<Rightarrow> QVariant \<Rightarrow> NodeValueTable \<Rightarrow> NodeValueTable" where
  "Push t v table = table @ [(t, v)]"

text \<open>
  A \<open>NodeInput\<close>: \<open>input_id\<close> is its identity (the pointer the database is keyed by);
  \<open>connected_node\<close> is \<open>None\<close> when \<open>IsConnected()\<close> is false and otherwise the address
  \<open>get_connected_node()\<close> returns; \<open>get_value_at_time\<close> is the input's own stored
  (literal or keyframed) value.
\<close>

record NodeInput =
  input_id :: nat
  data_type :: DataType
  connected_node :: "nat option"
  get_value_at_time :: "rat \<Rightarrow> QVariant"

text \<open>A \<open>NodeParam\<close> with its \<open>type()\<close>: an input, or any other kind of parameter.\<close>

datatype NodeParam = kInput NodeInput | kOutput nat

text \<open>Modelled from the spec: \<open>NodeValueDatabase\<close> (its class is not part of these
  sources) maps an input's identity to one table; a second \<open>Insert\<close> for the same input
  replaces the first.\<close>

type_synonym NodeValueDatabase = "nat \<rightharpoonup> NodeValueTable"

definition Insert :: "NodeInput \<Rightarrow> NodeValueTable \<Rightarrow> NodeValueDatabase \<Rightarrow> NodeValueDatabase" where
  "Insert input table database = database(input_id input \<mapsto> table)"

text \<open>A \<open>Node\<close> as the worker sees it: its virtual functions are fields.\<close>

record Node =
  IsTrack :: bool
  parameters :: "NodeParam list"
  Value :: "NodeValueDatabase \<Rightarrow> NodeValueTable"
  InputTimeAdjustment :: "NodeInput \<Rightarrow> TimeRange \<Rightarrow> TimeRange"

text \<open>\<open>NodeDependency\<close>: \<open>dep_node\<close> is \<open>node()\<close>, the address of a node; \<open>dep_range\<close> is
  \<open>range()\<close>.\<close>

record NodeDependency =
  dep_node :: nat
  dep_range :: TimeRange

text \<open>
  Everything the worker does to the world outside it, in the order it happens: the polls
  of the cancellation flag with their answers, the lock of the decoder cache, the cache's
  \<open>Get\<close> and \<open>Add\<close>, the calls on decoders (each with the address of its stream), the
  warning of a failed open, and the two signals.
\<close>

datatype Event =
    EvIsCancelled bool
  | EvLock
  | EvUnlock
  | EvCacheGet "nat option"
  | EvCreateFromID string "nat option"
  | EvOpen "nat option" bool
  | EvCacheAdd "nat option"
  | EvWarning string int
  | EvGetRetrieveState "nat option" rat RetrieveState
  | EvRetrieveFromDecoder "nat option" TimeRange
  | EvFootageUnavailable StreamPtr RetrieveState TimeRange rat
  | EvCompletedCache NodeDependency NodeValueTable int

text \<open>Decoder I/O: creating a decoder, opening it, asking its state, retrieving a frame.\<close>

fun is_decoder_io :: "Event \<Rightarrow> bool" where
  "is_decoder_io (EvCreateFromID _ _) = True"
| "is_decoder_io (EvOpen _ _) = True"
| "is_decoder_io (EvGetRetrieveState _ _ _) = True"
| "is_decoder_io (EvRetrieveFromDecoder _ _) = True"
| "is_decoder_io _ = False"

text \<open>
  The worker and what it shares: \<open>m_path\<close> is the member \<open>path_\<close>; \<open>decoder_cache\<close> is the
  content of the \<open>DecoderCache\<close> that \<open>decoder_cache_\<close> points to, keyed by the address of
  a stream (\<open>None\<close> is the null address) and holding decoders of type \<open>'d\<close>; \<open>trace\<close> is
  the list of events so far.
\<close>

record 'd RenderWorker =
  m_path :: NodeDependency
  decoder_cache :: "nat option \<rightharpoonup> 'd"
  trace :: "Event list"

definition emit :: "Event list \<Rightarrow> 'd RenderWorker \<Rightarrow> 'd RenderWorker" where
  "emit evs w = w\<lparr>trace := trace w @ evs\<rparr>"

text \<open>
  What the worker calls and these sources only declare. \<open>node_at\<close> is the memory holding
  the graph: the node at an address. \<open>IsCancelled\<close> answers a poll of the shared flag as
  a function of the events so far (another thread sets the flag, so the worker cannot
  know the answer). \<open>RenderBlock\<close>, \<open>RetrieveFromDecoder\<close> and \<open>FrameToValue\<close> are virtual
  functions of the worker; \<open>CreateFromID\<close>, \<open>set_stream\<close>, \<open>Decoder_Open\<close> and
  \<open>Decoder_GetRetrieveState\<close> are the \<open>Decoder\<close> interface. \<open>CreateFromID\<close> is taken to
  return a decoder, since the worker dereferences its result unchecked.
\<close>

record 'd Collaborators =
  node_at :: "nat \<Rightarrow> Node"
  IsCancelled :: "Event list \<Rightarrow> bool"
  RenderBlock :: "nat \<Rightarrow> TimeRange \<Rightarrow> 'd RenderWorker \<Rightarrow> NodeValueTable \<times> 'd RenderWorker"
  CreateFromID :: "string \<Rightarrow> 'd"
  set_stream :: "StreamPtr \<Rightarrow> 'd \<Rightarrow> 'd"
  Decoder_Open :: "'d \<Rightarrow> bool \<times> 'd"
  Decoder_GetRetrieveState :: "'d \<Rightarrow> rat \<Rightarrow> RetrieveState"
  RetrieveFromDecoder :: "'d \<Rightarrow> TimeRange \<Rightarrow> FramePtr"
  FrameToValue :: "StreamPtr \<Rightarrow> Frame \<Rightarrow> NodeValueTable \<Rightarrow> NodeValueTable"


subsection \<open>The worker's functions\<close>

text \<open>\<open>Render\<close> calls \<open>RenderInternal\<close>, which calls \<open>ProcessNode\<close>; the recursion
  \<open>ProcessNode\<close>, \<open>GenerateDatabase\<close>, \<open>ProcessInput\<close> follows the graph and does not
  return on a cyclic one. The functions below take fuel, the number of nested
  \<open>ProcessNode\<close> calls allowed, and return \<open>None\<close> when it runs out.\<close>

text \<open>\<open>RunNodeAccelerated\<close>: the worker's own body ignores its arguments and leaves
  \<open>output_params\<close> as it is.\<close>

definition RunNodeAccelerated ::
  "Node \<Rightarrow> TimeRange \<Rightarrow> NodeValueDatabase \<Rightarrow> NodeValueTable \<Rightarrow> NodeValueTable" where
  "RunNodeAccelerated node rng input_params output_params = output_params"

definition ResolveStreamFromInput :: "NodeInput \<Rightarrow> StreamPtr" where
  "ResolveStreamFromInput input = value_StreamPtr (get_value_at_time input 0)"

text \<open>
  \<open>ResolveDecoderFromInput\<close>. The \<open>QMutexLocker\<close> is a local of the function: it locks
  where it is declared and unlocks when the function returns.
\<close>

definition ResolveDecoderFromInput ::
  "'d Collaborators \<Rightarrow> StreamPtr \<Rightarrow> 'd RenderWorker \<Rightarrow> 'd option \<times> 'd RenderWorker" where
  "ResolveDecoderFromInput env stream w =
    (let key = map_option stream_ptr stream;
         w1 = emit [EvLock] w;
         decoder = decoder_cache w1 key;
         w2 = emit [EvCacheGet key] w1
     in case (decoder, stream) of
          (None, Some st) \<Rightarrow>
            (let created = CreateFromID env (footage_decoder st);
                 w3 = emit [EvCreateFromID (footage_decoder st) key] w2;
                 with_stream = set_stream env stream created;
                 (ok, opened) = Decoder_Open env with_stream;
                 w4 = emit [EvOpen key ok] w3
             in if ok then
                  (Some opened,
                   emit [EvCacheAdd key, EvUnlock] (w4\<lparr>decoder_cache := (decoder_cache w4)(key \<mapsto> opened)\<rparr>))
                else
                  (None, emit [EvWarning (footage_filename st) (stream_index st), EvUnlock] w4))
        | _ \<Rightarrow> (decoder, emit [EvUnlock] w2))"

definition ReportUnavailableFootage ::
  "StreamPtr \<Rightarrow> RetrieveState \<Rightarrow> rat \<Rightarrow> 'd RenderWorker \<Rightarrow> 'd RenderWorker" where
  "ReportUnavailableFootage stream state stream_time w =
    emit [EvFootageUnavailable stream state (dep_range (m_path w)) stream_time] w"

text \<open>
  The footage exception of \<open>GenerateDatabase\<close> (the body of
  \<open>if (input->data_type() == NodeParam::kFootage)\<close>): from the table that
  \<open>ProcessInput\<close> returned to the table that is inserted.
\<close>

definition GenerateDatabase_footage ::
  "'d Collaborators \<Rightarrow> NodeInput \<Rightarrow> TimeRange \<Rightarrow> NodeValueTable \<Rightarrow> 'd RenderWorker
    \<Rightarrow> NodeValueTable \<times> 'd RenderWorker" where
  "GenerateDatabase_footage env input input_time table w =
    (let stream = ResolveStreamFromInput input in
     case stream of
       None \<Rightarrow> (table, w)
     | Some st \<Rightarrow>
        (let (decoder, w1) = ResolveDecoderFromInput env stream w in
         case decoder of
           None \<Rightarrow> (table, w1)
         | Some d \<Rightarrow>
            (let state = Decoder_GetRetrieveState env d (tr_out input_time);
                 w2 = emit [EvGetRetrieveState (Some (stream_ptr st)) (tr_out input_time) state] w1
             in if state = kReady then
                  (let frame = RetrieveFromDecoder env d input_time;
                       w3 = emit [EvRetrieveFromDecoder (Some (stream_ptr st)) input_time] w2
                   in case frame of
                        None \<Rightarrow> (table, w3)
                      | Some f \<Rightarrow> (FrameToValue env stream f table, w3))
                else (table, ReportUnavailableFootage stream state (tr_out input_time) w2))))"

text \<open>
  \<open>ProcessNode\<close>, \<open>ProcessInput\<close> and the loop of \<open>GenerateDatabase\<close> over the parameters
  that are left, with the database built so far.
\<close>

fun ProcessNode ::
    "nat \<Rightarrow> 'd Collaborators \<Rightarrow> NodeDependency \<Rightarrow> 'd RenderWorker
      \<Rightarrow> (NodeValueTable \<times> 'd RenderWorker) option"
  and GenerateDatabase_loop ::
    "nat \<Rightarrow> 'd Collaborators \<Rightarrow> Node \<Rightarrow> TimeRange \<Rightarrow> NodeParam list \<Rightarrow> NodeValueDatabase
      \<Rightarrow> 'd RenderWorker \<Rightarrow> (NodeValueDatabase \<times> 'd RenderWorker) option"
  and ProcessInput ::
    "nat \<Rightarrow> 'd Collaborators \<Rightarrow> NodeInput \<Rightarrow> TimeRange \<Rightarrow> 'd RenderWorker
      \<Rightarrow> (NodeValueTable \<times> 'd RenderWorker) option"
where
  "ProcessNode 0 env dep w = None"
| "ProcessNode (Suc fuel) env dep w =
    (let node = node_at env (dep_node dep) in
     if IsTrack node then Some (RenderBlock env (dep_node dep) (dep_range dep) w)
     else case GenerateDatabase_loop fuel env node (dep_range dep) (parameters node) Map.empty w of
       None \<Rightarrow> None
     | Some (database, w1) \<Rightarrow>
         Some (RunNodeAccelerated node (dep_range dep) database (Value node database), w1))"
| "GenerateDatabase_loop fuel env node rng [] database w = Some (database, w)"
| "GenerateDatabase_loop fuel env node rng (param # rest) database w =
    (let cancelled = IsCancelled env (trace w);
         w0 = emit [EvIsCancelled cancelled] w
     in if cancelled then Some (Map.empty, w0)
        else case param of
          kInput input \<Rightarrow>
            (let input_time = InputTimeAdjustment node input rng in
             case ProcessInput fuel env input input_time w0 of
               None \<Rightarrow> None
             | Some (table, w1) \<Rightarrow>
                (case (if data_type input = kFootage
                       then GenerateDatabase_footage env input input_time table w1
                       else (table, w1)) of
                   (table1, w2) \<Rightarrow>
                     GenerateDatabase_loop fuel env node rng rest (Insert input table1 database) w2))
        | kOutput _ \<Rightarrow> GenerateDatabase_loop fuel env node rng rest database w0)"
| "ProcessInput fuel env input rng w =
    (case connected_node input of
       Some n \<Rightarrow> ProcessNode fuel env \<lparr>dep_node = n, dep_range = rng\<rparr> w
     | None \<Rightarrow> Some (Push (data_type input) (get_value_at_time input (tr_in rng)) [], w))"

text \<open>\<open>GenerateDatabase\<close> starts the loop with an empty database.\<close>

definition GenerateDatabase ::
  "nat \<Rightarrow> 'd Collaborators \<Rightarrow> Node \<Rightarrow> TimeRange \<Rightarrow> 'd RenderWorker
    \<Rightarrow> (NodeValueDatabase \<times> 'd RenderWorker) option" where
  "GenerateDatabase fuel env node rng w =
    GenerateDatabase_loop fuel env node rng (parameters node) Map.empty w"

definition RenderInternal ::
  "nat \<Rightarrow> 'd Collaborators \<Rightarrow> NodeDependency \<Rightarrow> int \<Rightarrow> 'd RenderWorker
    \<Rightarrow> (NodeValueTable \<times> 'd RenderWorker) option" where
  "RenderInternal fuel env path job_time w = ProcessNode (Suc fuel) env path w"

text \<open>\<open>Render\<close>: stores the path, evaluates it, and emits \<open>CompletedCache\<close>.\<close>

definition Render ::
  "nat \<Rightarrow> 'd Collaborators \<Rightarrow> NodeDependency \<Rightarrow> int \<Rightarrow> 'd RenderWorker
    \<Rightarrow> 'd RenderWorker option" where
  "Render fuel env path job_time w =
    (case RenderInternal fuel env path job_time (w\<lparr>m_path := path\<rparr>) of
       None \<Rightarrow> None
     | Some (table, w1) \<Rightarrow> Some (emit [EvCompletedCache path table job_time] w1))"

subsection \<open>The loop of GenerateDatabase, parameter by parameter\<close>

text \<open>
  The body of the \<open>foreach\<close> for one parameter, after the cancellation check: the
  database with the parameter's table inserted (unchanged for a parameter that is not
  an input) and the worker afterwards.
\<close>

definition GenerateDatabase_param ::
  "nat \<Rightarrow> 'd Collaborators \<Rightarrow> Node \<Rightarrow> TimeRange \<Rightarrow> NodeParam \<Rightarrow> NodeValueDatabase
    \<Rightarrow> 'd RenderWorker \<Rightarrow> (NodeValueDatabase \<times> 'd RenderWorker) option" where
  "GenerateDatabase_param fuel env node rng param database w0 =
    (case param of
       kInput input \<Rightarrow>
         (let input_time = InputTimeAdjustment node input rng in
          case ProcessInput fuel env input input_time w0 of
            None \<Rightarrow> None
          | Some (table, w1) \<Rightarrow>
             (case (if data_type input = kFootage
                    then GenerateDatabase_footage env input input_time table w1
                    else (table, w1)) of
                (table1, w2) \<Rightarrow> Some (Insert input table1 database, w2)))
     | kOutput _ \<Rightarrow> Some (database, w0))"

text \<open>
  Where the loop stands once the parameters \<open>done\<close> have been gone through with no
  poll answering true: the database built so far and the worker about to poll for the
  next parameter. \<open>None\<close> when a poll answered true or the fuel ran out before.
\<close>

fun GenerateDatabase_prefix ::
  "nat \<Rightarrow> 'd Collaborators \<Rightarrow> Node \<Rightarrow> TimeRange \<Rightarrow> NodeParam list \<Rightarrow> NodeValueDatabase
    \<Rightarrow> 'd RenderWorker \<Rightarrow> (NodeValueDatabase \<times> 'd RenderWorker) option" where
  "GenerateDatabase_prefix fuel env node rng [] database w = Some (database, w)"
| "GenerateDatabase_prefix fuel env node rng (param # rest) database w =
    (if IsCancelled env (trace w) then None
     else case GenerateDatabase_param fuel env node rng param database (emit [EvIsCancelled False] w) of
       None \<Rightarrow> None
     | Some (database1, w1) \<Rightarrow> GenerateDatabase_prefix fuel env node rng rest database1 w1)"

text \<open>Modelled from the spec: \<open>IsCancelled\<close> (not part of these sources) polls a shared
  flag that another thread sets and that is not reset during the evaluation of a
  descriptor. Here the flag is set when \<open>T\<close> events have happened, and stays set.\<close>

definition cancelled_from :: "nat \<Rightarrow> Event list \<Rightarrow> bool" where
  "cancelled_from T tr = (T \<le> length tr)"

text \<open>The graph is acyclic: a rank falls along every connection.\<close>

definition acyclic_by :: "'d Collaborators \<Rightarrow> (nat \<Rightarrow> nat) \<Rightarrow> bool" where
  "acyclic_by env rank =
    (\<forall>n input m. kInput input \<in> set (parameters (node_at env n)) \<and> connected_node input = Some m
       \<longrightarrow> rank m < rank n)"

text \<open>An event that, if it is the \<open>FootageUnavailable\<close> signal, carries the range \<open>r\<close>.\<close>

definition reports_range :: "TimeRange \<Rightarrow> Event \<Rightarrow> bool" where
  "reports_range r ev = (case ev of EvFootageUnavailable stream state r' t \<Rightarrow> r' = r | _ \<Rightarrow> True)"

text \<open>
  From worker \<open>w\<close> to worker \<open>w'\<close> the member \<open>path_\<close> is the same, the trace has only
  grown, and every \<open>FootageUnavailable\<close> signal among the new events carries the range
  of \<open>path_\<close>.
\<close>

definition reports_path :: "'d RenderWorker \<Rightarrow> 'd RenderWorker \<Rightarrow> bool" where
  "reports_path w w' =
    (m_path w' = m_path w \<and> take (length (trace w)) (trace w') = trace w
      \<and> list_all (reports_range (dep_range (m_path w))) (drop (length (trace w)) (trace w')))"

text \<open>What is asked of \<open>RenderBlock\<close>, whose body these sources do not hold, where a
  property of a whole evaluation needs it.\<close>

definition RenderBlock_reports_path :: "'d Collaborators \<Rightarrow> bool" where
  "RenderBlock_reports_path env = (\<forall>n rng w. reports_path w (snd (RenderBlock env n rng w)))"

section \<open>Examples\<close>

text \<open>A decoder as the constructor leaves it, bound to the file \<open>a.png\<close>, and a file system
  holding that file as an 8-bit RGBA image of 641 by 480 pixels.\<close>

definition still_decoder :: OIIODecoder where
  "still_decoder = \<lparr>m_image = None, m_buffer = None, m_width = 0, m_height = 0, m_is_rgba = False,
     m_pix_fmt = PIX_FMT_RGB8, m_type = UINT8, m_open = False, stream_filename = ''a.png''\<rparr>"

definition png :: "string \<Rightarrow> ImageSpec option" where
  "png name = (if name = ''a.png''
     then Some \<lparr>spec_width = 641, spec_height = 480, nchannels = 4, format = UINT8\<rparr> else None)"

text \<open>A stream of that file, to be decoded by the still-image decoder.\<close>

definition example_stream :: Stream where
  "example_stream =
    \<lparr>stream_ptr = 1, footage_decoder = ''oiio'', footage_filename = ''a.png'', stream_index = 0\<rparr>"

text \<open>Inputs: a footage input holding the stream; a literal input; an input connected to
  the node at address 2; and, further down, a connected footage input that holds the
  stream at time 0 only.\<close>

definition footage_input :: NodeInput where
  "footage_input = \<lparr>input_id = 1, data_type = kFootage, connected_node = None,
     get_value_at_time = (\<lambda>t. QStreamPtr (Some example_stream))\<rparr>"

definition text_input :: NodeInput where
  "text_input = \<lparr>input_id = 2, data_type = kOtherType 0, connected_node = None,
     get_value_at_time = (\<lambda>t. QInt 5)\<rparr>"

definition texture_input :: NodeInput where
  "texture_input = \<lparr>input_id = 3, data_type = kOtherType 1, connected_node = Some 2,
     get_value_at_time = (\<lambda>t. QInvalid)\<rparr>"

text \<open>
  Nodes: a media node, which passes on the table of its footage input; a title node,
  which pushes a value of its own whatever its database holds; a merge node, which
  passes on the table of its connected input and asks for it one time unit later.
  The graph has the merge node at address 1, the media node at address 2 and the
  title node everywhere else; the rank falls from 1 to 0 along the one connection.
\<close>

definition media_node :: Node where
  "media_node = \<lparr>IsTrack = False, parameters = [kOutput 0, kInput footage_input],
     Value = (\<lambda>database. case database 1 of None \<Rightarrow> [] | Some table \<Rightarrow> table),
     InputTimeAdjustment = (\<lambda>input rng. rng)\<rparr>"

definition title_node :: Node where
  "title_node = \<lparr>IsTrack = False, parameters = [kInput text_input, kOutput 0],
     Value = (\<lambda>database. Push (kOtherType 1) (QOther 0) []),
     InputTimeAdjustment = (\<lambda>input rng. rng)\<rparr>"

definition merge_node :: Node where
  "merge_node = \<lparr>IsTrack = False, parameters = [kInput texture_input],
     Value = (\<lambda>database. case database 3 of None \<Rightarrow> [] | Some table \<Rightarrow> table),
     InputTimeAdjustment = (\<lambda>input rng. \<lparr>tr_in = tr_in rng + 1, tr_out = tr_out rng + 1\<rparr>)\<rparr>"

definition graph :: "nat \<Rightarrow> Node" where
  "graph n = (if n = 1 then merge_node else if n = 2 then media_node else title_node)"

definition graph_rank :: "nat \<Rightarrow> nat" where
  "graph_rank n = (if n = 1 then 1 else 0)"

text \<open>
  Collaborators built on the still-image decoder: \<open>CreateFromID\<close> constructs one,
  \<open>set_stream\<close> binds it to the footage's file, \<open>Open\<close> and \<open>GetRetrieveState\<close> are the
  decoder's own, \<open>RetrieveFromDecoder\<close> retrieves at the start of the range with divider
  2 and \<open>FrameToValue\<close> pushes the frame's width. \<open>RenderBlock\<close> returns an empty table
  and leaves the worker alone. The file system and the cancellation flag are arguments.
\<close>

definition oiio_worker ::
  "(string \<Rightarrow> ImageSpec option) \<Rightarrow> (Event list \<Rightarrow> bool) \<Rightarrow> OIIODecoder Collaborators" where
  "oiio_worker image_open cancel =
    \<lparr>node_at = graph, IsCancelled = cancel,
     RenderBlock = (\<lambda>n rng w. ([], w)),
     CreateFromID = (\<lambda>decoder_id. still_decoder\<lparr>stream_filename := []\<rparr>),
     set_stream = (\<lambda>stream d. case stream of None \<Rightarrow> d
                     | Some st \<Rightarrow> d\<lparr>stream_filename := footage_filename st\<rparr>),
     Decoder_Open = Open image_open,
     Decoder_GetRetrieveState = GetRetrieveState,
     RetrieveFromDecoder =
       (\<lambda>d rng. case RetrieveVideo d (tr_in rng) 2 of Inl e \<Rightarrow> None | Inr frame \<Rightarrow> frame),
     FrameToValue = (\<lambda>stream frame table. Push kFootage (QOther (nat (frame_width frame))) table)\<rparr>"

text \<open>A worker with an empty cache and nothing done yet; the same worker in the middle of
  rendering the merge node over the range from 10 to 20; the media node over that range.\<close>

definition idle :: "OIIODecoder RenderWorker" where
  "idle = \<lparr>m_path = \<lparr>dep_node = 0, dep_range = \<lparr>tr_in = 0, tr_out = 0\<rparr>\<rparr>,
            decoder_cache = Map.empty, trace = []\<rparr>"

definition busy :: "OIIODecoder RenderWorker" where
  "busy = idle\<lparr>m_path := \<lparr>dep_node = 1, dep_range = \<lparr>tr_in = 10, tr_out = 20\<rparr>\<rparr>\<rparr>"

definition frame_10_20 :: NodeDependency where
  "frame_10_20 = \<lparr>dep_node = 2, dep_range = \<lparr>tr_in = 10, tr_out = 20\<rparr>\<rparr>"

text \<open>Collaborators whose decoders are never ready, and collaborators whose retrieval
  returns no frame.\<close>

definition never_ready :: "'d Collaborators \<Rightarrow> 'd Collaborators" where
  "never_ready env = env\<lparr>Decoder_GetRetrieveState := (\<lambda>d t. kNotReady)\<rparr>"

definition without_frames :: "'d Collaborators \<Rightarrow> 'd Collaborators" where
  "without_frames env = env\<lparr>RetrieveFromDecoder := (\<lambda>d rng. None)\<rparr>"

definition keyed_input :: NodeInput where
  "keyed_input = \<lparr>input_id = 4, data_type = kFootage, connected_node = Some 0,
     get_value_at_time = (\<lambda>t. if t = 0 then QStreamPtr (Some example_stream) else QInvalid)\<rparr>"

text \<open>What an evaluation shows: the table it returns and the events of its worker.\<close>

definition observed ::
  "(NodeValueTable \<times> 'd RenderWorker) option \<Rightarrow> (NodeValueTable \<times> Event list) option" where
  "observed r = map_option (\<lambda>(table, w). (table, trace w)) r"

text \<open>The decoder of \<open>a.png\<close> once opened, and a worker after it has resolved the example
  stream on a cache miss: the decoder is in the cache and the six events are in the
  trace.\<close>

definition opened_png :: OIIODecoder where
  "opened_png =
    \<lparr>m_image = Some \<lparr>spec_width = 641, spec_height = 480, nchannels = 4, format = UINT8\<rparr>,
     m_buffer = Some \<lparr>spec_width = 641, spec_height = 480, nchannels = 4, format = UINT8\<rparr>,
     m_width = 641, m_height = 480, m_is_rgba = True, m_pix_fmt = PIX_FMT_RGBA8, m_type = UINT8,
     m_open = True, stream_filename = ''a.png''\<rparr>"

definition resolved :: "OIIODecoder RenderWorker \<Rightarrow> OIIODecoder RenderWorker" where
  "resolved w =
    emit [EvLock, EvCacheGet (Some 1), EvCreateFromID ''oiio'' (Some 1), EvOpen (Some 1) True,
          EvCacheAdd (Some 1), EvUnlock]
      (w\<lparr>decoder_cache := (decoder_cache w)(Some 1 \<mapsto> opened_png)\<rparr>)"

section \<open>Properties of the decoder\<close>

lemma Open_m_open: "m_open (snd (Open image_open d)) = (m_open d \<or> fst (Open image_open d))"
  by (simp add: Open_def Let_def split: option.splits)

lemma call_m_open: "m_open (call d c) = (m_open d \<or> opened_by d c)"
  by (cases c) (simp_all add: Open_m_open Close_def)

lemma foldl_call_m_open: "m_open (foldl call d cs) = (m_open d \<or> ever_opened d cs)"
  by (induction cs arbitrary: d) (auto simp: call_m_open)

lemma sdiv_nonneg: "0 \<le> a \<Longrightarrow> 0 < b \<Longrightarrow> a sdiv b = a div (b::int)"
  by (simp add: signed_divide_int_def sgn_if)

lemma Open_True:
  assumes "Open image_open d = (True, d')"
  shows "m_open d' \<and> (\<exists>spec. image_open (stream_filename d) = Some spec
      \<and> m_width d' = spec_width spec \<and> m_height d' = spec_height spec
      \<and> m_buffer d' = Some \<lparr>spec_width = spec_width spec, spec_height = spec_height spec,
            nchannels = nchannels spec, format = m_type d'\<rparr>)"
  using assms by (auto simp: Open_def Let_def split: option.splits if_splits)

text \<open>
  Claim C8. After a successful \<open>Open\<close> on an image whose spec gives the native dimensions
  (W, H), \<open>RetrieveVideo\<close> returns, for every time and every positive divider, a frame
  whose width is W divided by the divider and whose height is H divided by the
  divider, by C++ integer division (truncation, which for dimensions that are not
  negative is \<open>div\<close>).
\<close>

theorem RetrieveVideo_divides_dimensions:
  assumes "Open image_open d = (True, d')" and "image_open (stream_filename d) = Some spec"
    and "0 < divider"
  shows "RetrieveVideo d' t divider =
      Inr (Some \<lparr>frame_width = spec_width spec sdiv divider,
                 frame_height = spec_height spec sdiv divider, frame_format = m_pix_fmt d'\<rparr>)
    \<and> (0 \<le> spec_width spec \<longrightarrow> spec_width spec sdiv divider = spec_width spec div divider)
    \<and> (0 \<le> spec_height spec \<longrightarrow> spec_height spec sdiv divider = spec_height spec div divider)"
proof -
  from Open_True [OF assms(1)] assms(2) have
    "m_open d'" "m_width d' = spec_width spec" "m_height d' = spec_height spec" "m_buffer d' \<noteq> None"
    by auto
  with assms(3) show ?thesis
    by (auto simp: RetrieveVideo_def int_div_def sdiv_nonneg)
qed

theorem RetrieveVideo_divides_dimensions_witness:
  "Open png still_decoder = (True, snd (Open png still_decoder)) \<and> png (stream_filename still_decoder) = Some \<lparr>spec_width = 641, spec_height = 480, nchannels = 4, format = UINT8\<rparr> \<and> (0::int) < 2
   \<and> RetrieveVideo (snd (Open png still_decoder)) 7 2 =
      Inr (Some \<lparr>frame_width = 320, frame_height = 240, frame_format = PIX_FMT_RGBA8\<rparr>)"
proof -
  have o: "Open png still_decoder = (True, snd (Open png still_decoder))"
    by (simp add: Open_def png_def still_decoder_def kRGBAChannels_def)
  have p: "png (stream_filename still_decoder) = Some \<lparr>spec_width = 641, spec_height = 480, nchannels = 4, format = UINT8\<rparr>"
    by (simp add: png_def still_decoder_def)
  have f: "m_pix_fmt (snd (Open png still_decoder)) = PIX_FMT_RGBA8"
    by (simp add: Open_def png_def still_decoder_def kRGBAChannels_def)
  from RetrieveVideo_divides_dimensions [OF o p, of 2 7] o p f show ?thesis
    by simp
qed

text \<open>
  Claim C10. \<open>GetRetrieveState\<close> never answers \<open>kNotReady\<close>, its answer does not depend on
  the time, and on a decoder that has gone from its construction through any history
  of calls it is \<open>kReady\<close> when some \<open>Open\<close> of the history succeeded and \<open>kFailedToOpen\<close>
  otherwise.
\<close>

theorem GetRetrieveState_reports_open:
  "(constructed d0 \<longrightarrow>
      GetRetrieveState (foldl call d0 cs) t = (if ever_opened d0 cs then kReady else kFailedToOpen))
   \<and> GetRetrieveState d t \<noteq> kNotReady
   \<and> GetRetrieveState d t' = GetRetrieveState d t"
  by (simp add: GetRetrieveState_def foldl_call_m_open constructed_def)

theorem GetRetrieveState_reports_open_witness:
  "constructed still_decoder
   \<and> GetRetrieveState (foldl call still_decoder [CallGetRetrieveState 1, CallOpen (\<lambda>name. None)]) 5 = kFailedToOpen
   \<and> GetRetrieveState (foldl call still_decoder [CallOpen png, CallRetrieveVideo 0 1, CallClose]) 5 = kReady"
proof -
  have c: "constructed still_decoder"
    by (simp add: constructed_def still_decoder_def)
  have a: "\<not> ever_opened still_decoder [CallGetRetrieveState 1, CallOpen (\<lambda>name. None)]"
    by (simp add: Open_def still_decoder_def)
  have b: "ever_opened still_decoder [CallOpen png, CallRetrieveVideo 0 1, CallClose]"
    by (simp add: Open_def png_def still_decoder_def kRGBAChannels_def)
  from GetRetrieveState_reports_open [of still_decoder "[CallGetRetrieveState 1, CallOpen (\<lambda>name. None)]" 5]
       GetRetrieveState_reports_open [of still_decoder "[CallOpen png, CallRetrieveVideo 0 1, CallClose]" 5]
       a b c
  show ?thesis by simp
qed

section \<open>Properties of the worker\<close>

lemma emit_simps [simp]:
  "trace (emit evs w) = trace w @ evs"
  "m_path (emit evs w) = m_path w"
  "decoder_cache (emit evs w) = decoder_cache w"
  by (simp_all add: emit_def)

lemma emit_emit: "emit ys (emit xs w) = emit (xs @ ys) w"
  by (simp add: emit_def)

lemma ResolveDecoderFromInput_None:
  "ResolveDecoderFromInput env None w =
    (decoder_cache w None, emit [EvLock, EvCacheGet None, EvUnlock] w)"
  by (simp add: ResolveDecoderFromInput_def emit_def Let_def split: option.splits)

lemma ResolveDecoderFromInput_hit:
  assumes "decoder_cache w (Some (stream_ptr st)) = Some d"
  shows "ResolveDecoderFromInput env (Some st) w =
    (Some d, emit [EvLock, EvCacheGet (Some (stream_ptr st)), EvUnlock] w)"
  using assms by (simp add: ResolveDecoderFromInput_def emit_def Let_def)

lemma ResolveDecoderFromInput_miss:
  assumes "decoder_cache w (Some (stream_ptr st)) = None"
  shows "ResolveDecoderFromInput env (Some st) w =
    (case Decoder_Open env (set_stream env (Some st) (CreateFromID env (footage_decoder st))) of
       (True, opened) \<Rightarrow>
         (Some opened,
          emit [EvLock, EvCacheGet (Some (stream_ptr st)),
                EvCreateFromID (footage_decoder st) (Some (stream_ptr st)),
                EvOpen (Some (stream_ptr st)) True, EvCacheAdd (Some (stream_ptr st)), EvUnlock]
            (w\<lparr>decoder_cache := (decoder_cache w)(Some (stream_ptr st) \<mapsto> opened)\<rparr>))
     | (False, opened) \<Rightarrow>
         (None,
          emit [EvLock, EvCacheGet (Some (stream_ptr st)),
                EvCreateFromID (footage_decoder st) (Some (stream_ptr st)),
                EvOpen (Some (stream_ptr st)) False,
                EvWarning (footage_filename st) (stream_index st), EvUnlock] w))"
  using assms by (simp add: ResolveDecoderFromInput_def emit_def Let_def split: prod.splits bool.splits)

lemma GenerateDatabase_loop_Cons:
  "GenerateDatabase_loop fuel env node rng (param # rest) database w =
    (if IsCancelled env (trace w) then Some (Map.empty, emit [EvIsCancelled True] w)
     else case GenerateDatabase_param fuel env node rng param database (emit [EvIsCancelled False] w) of
       None \<Rightarrow> None
     | Some (database1, w1) \<Rightarrow> GenerateDatabase_loop fuel env node rng rest database1 w1)"
  by (simp add: GenerateDatabase_param_def Let_def split: NodeParam.split option.split prod.split)

lemma GenerateDatabase_loop_append:
  "GenerateDatabase_prefix fuel env node rng done database w = Some (database1, w1) \<Longrightarrow>
   GenerateDatabase_loop fuel env node rng (done @ rest) database w =
   GenerateDatabase_loop fuel env node rng rest database1 w1"
proof (induction "done" arbitrary: database w)
  case Nil
  then show ?case by simp
next
  case (Cons param ps)
  then show ?case
    by (simp only: append_Cons GenerateDatabase_loop_Cons GenerateDatabase_prefix.simps)
       (auto split: if_splits option.splits)
qed

text \<open>A relation between workers that every step of the worker keeps is kept by a whole
  evaluation.\<close>

lemma worker_steps:
  assumes refl: "\<And>w. R w w" and trans: "\<And>a b c. R a b \<Longrightarrow> R b c \<Longrightarrow> R a c"
    and emits: "\<And>evs w. list_all (reports_range (dep_range (m_path w))) evs \<Longrightarrow> R w (emit evs w)"
    and adds: "\<And>w k d. R w (w\<lparr>decoder_cache := (decoder_cache w)(k \<mapsto> d)\<rparr>)"
    and block: "\<And>n rng w. R w (snd (RenderBlock env n rng w))"
  shows "ProcessNode fuel env dep w = Some (t, w') \<Longrightarrow> R w w'"
proof (induction fuel arbitrary: dep w t w')
  case 0
  then show ?case by simp
next
  case (Suc fuel)
  have after: "R a (emit evs b)" if "R a b" "list_all (reports_range (dep_range (m_path b))) evs" for a b evs
    using that(1) emits [OF that(2)] by (rule trans)
  have resolve: "R w (snd (ResolveDecoderFromInput env stream w))" for stream w
  proof (cases stream)
    case None
    then show ?thesis by (simp add: ResolveDecoderFromInput_None emits reports_range_def)
  next
    case (Some st)
    show ?thesis
    proof (cases "decoder_cache w (Some (stream_ptr st))")
      case None
      then show ?thesis unfolding Some
        by (auto simp: ResolveDecoderFromInput_miss reports_range_def split: prod.splits bool.splits
            intro!: emits after adds)
    next
      case (Some d)
      then show ?thesis unfolding \<open>stream = Some st\<close>
        by (simp add: ResolveDecoderFromInput_hit emits reports_range_def)
    qed
  qed
  have footage: "R w (snd (GenerateDatabase_footage env input input_time table w))" for input input_time table w
  proof -
    have "R w w1" if "ResolveDecoderFromInput env stream w = (decoder, w1)" for stream decoder w1
      using resolve [of w stream] that by simp
    then show ?thesis
      unfolding GenerateDatabase_footage_def ReportUnavailableFootage_def Let_def
      by (auto simp: emit_emit reports_range_def split: option.splits prod.splits intro: refl intro!: after)
  qed
  have input: "ProcessInput fuel env input rng w = Some (t, w') \<Longrightarrow> R w w'" for input rng w t w'
    using Suc.IH by (cases "connected_node input") (auto simp del: ProcessNode.simps intro: refl)
  have param: "GenerateDatabase_param fuel env node rng p database w = Some (db', w') \<Longrightarrow> R w w'"
    for node rng p database w db' w'
  proof (cases p)
    case (kInput i)
    assume a: "GenerateDatabase_param fuel env node rng p database w = Some (db', w')"
    with kInput obtain table w1 where
      pi: "ProcessInput fuel env i (InputTimeAdjustment node i rng) w = Some (table, w1)"
      by (auto simp: GenerateDatabase_param_def Let_def simp del: ProcessInput.simps split: option.splits)
    have r1: "R w w1" using input [OF pi] .
    show "R w w'"
    proof (cases "data_type i = kFootage")
      case True
      with a kInput pi have "w' = snd (GenerateDatabase_footage env i (InputTimeAdjustment node i rng) table w1)"
        by (auto simp: GenerateDatabase_param_def Let_def simp del: ProcessInput.simps split: prod.splits)
      with footage [of w1 i "InputTimeAdjustment node i rng" table] r1 show ?thesis
        by (auto intro: trans)
    next
      case False
      with a kInput pi have "w' = w1"
        by (auto simp: GenerateDatabase_param_def Let_def simp del: ProcessInput.simps)
      with r1 show ?thesis by simp
    qed
  next
    case (kOutput x)
    assume "GenerateDatabase_param fuel env node rng p database w = Some (db', w')"
    with kOutput show "R w w'" by (auto simp: GenerateDatabase_param_def intro: refl)
  qed
  have loop: "GenerateDatabase_loop fuel env node rng ps database w = Some (db', w') \<Longrightarrow> R w w'"
    for node rng ps database w db' w'
  proof (induction ps arbitrary: database w)
    case Nil
    then show ?case by (auto intro: refl)
  next
    case (Cons p ps)
    have poll: "R w (emit [EvIsCancelled b] w)" for b
      by (rule emits) (simp add: reports_range_def)
    show ?case
    proof (cases "IsCancelled env (trace w)")
      case True
      with Cons.prems show ?thesis
        by (simp only: GenerateDatabase_loop_Cons if_True) (auto intro: poll)
    next
      case False
      from Cons.prems False obtain database1 w1 where
        step: "GenerateDatabase_param fuel env node rng p database (emit [EvIsCancelled False] w) = Some (database1, w1)"
        and rest: "GenerateDatabase_loop fuel env node rng ps database1 w1 = Some (db', w')"
        by (simp only: GenerateDatabase_loop_Cons if_False split: option.splits prod.splits) auto
      from param [OF step] Cons.IH [OF rest] poll [of False] show ?thesis
        by (blast intro: trans)
    qed
  qed
  show ?case
  proof (cases "IsTrack (node_at env (dep_node dep))")
    case True
    with Suc.prems have "w' = snd (RenderBlock env (dep_node dep) (dep_range dep) w)"
      by (auto simp: Let_def)
    then show ?thesis using block by simp
  next
    case False
    with Suc.prems obtain database where
      "GenerateDatabase_loop fuel env (node_at env (dep_node dep)) (dep_range dep)
         (parameters (node_at env (dep_node dep))) Map.empty w = Some (database, w')"
      by (auto simp: Let_def split: option.splits)
    then show ?thesis by (rule loop)
  qed
qed

lemma reports_path_iff:
  "reports_path w w' \<longleftrightarrow>
    m_path w' = m_path w
    \<and> (\<exists>evs. trace w' = trace w @ evs \<and> list_all (reports_range (dep_range (m_path w))) evs)"
proof
  assume r: "reports_path w w'"
  then have "trace w' = trace w @ drop (length (trace w)) (trace w')"
    by (metis append_take_drop_id reports_path_def)
  with r show "m_path w' = m_path w
    \<and> (\<exists>evs. trace w' = trace w @ evs \<and> list_all (reports_range (dep_range (m_path w))) evs)"
    unfolding reports_path_def by blast
next
  assume "m_path w' = m_path w
    \<and> (\<exists>evs. trace w' = trace w @ evs \<and> list_all (reports_range (dep_range (m_path w))) evs)"
  then show "reports_path w w'"
    by (auto simp: reports_path_def)
qed

lemma reports_path_trans: "reports_path a b \<Longrightarrow> reports_path b c \<Longrightarrow> reports_path a c"
  unfolding reports_path_iff by auto

lemma ProcessNode_reports_path:
  assumes "RenderBlock_reports_path env" and "ProcessNode fuel env dep w = Some (t, w')"
  shows "reports_path w w'"
proof (rule worker_steps [where R = reports_path, OF _ _ _ _ _ assms(2)])
  show "reports_path w w" for w :: "'a RenderWorker" by (simp add: reports_path_def)
  show "reports_path a b \<Longrightarrow> reports_path b c \<Longrightarrow> reports_path a c" for a b c :: "'a RenderWorker"
    by (rule reports_path_trans)
  show "list_all (reports_range (dep_range (m_path w))) evs \<Longrightarrow> reports_path w (emit evs w)"
    for evs and w :: "'a RenderWorker"
    by (simp add: reports_path_def)
  show "reports_path w (w\<lparr>decoder_cache := (decoder_cache w)(k \<mapsto> d)\<rparr>)" for w :: "'a RenderWorker" and k d
    by (simp add: reports_path_def)
  show "reports_path w (snd (RenderBlock env n rng w))" for n rng w
    using assms(1) by (simp add: RenderBlock_reports_path_def)
qed

lemma ProcessInput_reports_path:
  assumes "RenderBlock_reports_path env" and "ProcessInput fuel env input rng w = Some (t, w')"
  shows "reports_path w w'"
proof (cases "connected_node input")
  case None
  with assms(2) show ?thesis by (auto simp: reports_path_def)
next
  case (Some n)
  with assms(2) have "ProcessNode fuel env \<lparr>dep_node = n, dep_range = rng\<rparr> w = Some (t, w')"
    by simp
  with assms(1) show ?thesis by (rule ProcessNode_reports_path)
qed

lemma ResolveDecoderFromInput_m_path:
  "m_path (snd (ResolveDecoderFromInput env stream w)) = m_path w"
proof (cases stream)
  case None
  then show ?thesis by (simp add: ResolveDecoderFromInput_None)
next
  case (Some st)
  then show ?thesis
    by (cases "decoder_cache w (Some (stream_ptr st))")
       (auto simp: ResolveDecoderFromInput_miss ResolveDecoderFromInput_hit split: prod.splits bool.splits)
qed

text \<open>More fuel does not change a result, and an acyclic graph needs fuel for its rank only.\<close>

lemma ProcessNode_Suc_fuel:
  "ProcessNode fuel env dep w = Some r \<Longrightarrow> ProcessNode (Suc fuel) env dep w = Some r"
proof (induction fuel arbitrary: dep w r)
  case 0
  then show ?case by simp
next
  case (Suc fuel)
  have PI: "ProcessInput fuel env input rng w = Some r \<Longrightarrow> ProcessInput (Suc fuel) env input rng w = Some r"
    for input rng w r
    by (cases "connected_node input") (simp_all del: ProcessNode.simps add: Suc.IH)
  have loop: "GenerateDatabase_loop fuel env node rng ps database w = Some r \<Longrightarrow>
        GenerateDatabase_loop (Suc fuel) env node rng ps database w = Some r" for node rng ps database w r
  proof (induction ps arbitrary: database w)
    case Nil
    then show ?case by simp
  next
    case (Cons p ps)
    show ?case
    proof (cases "IsCancelled env (trace w)")
      case True
      with Cons.prems show ?thesis by (simp only: GenerateDatabase_loop_Cons if_True)
    next
      case False
      from Cons.prems False obtain database1 w1 where
        step: "GenerateDatabase_param fuel env node rng p database (emit [EvIsCancelled False] w) = Some (database1, w1)"
        and rest: "GenerateDatabase_loop fuel env node rng ps database1 w1 = Some r"
        by (simp only: GenerateDatabase_loop_Cons if_False split: option.splits prod.splits) auto
      have step': "GenerateDatabase_param (Suc fuel) env node rng p database (emit [EvIsCancelled False] w) = Some (database1, w1)"
      proof (cases p)
        case (kInput input)
        with step obtain table w0 where
          pi: "ProcessInput fuel env input (InputTimeAdjustment node input rng) (emit [EvIsCancelled False] w) = Some (table, w0)"
          by (auto simp: GenerateDatabase_param_def Let_def simp del: ProcessInput.simps split: option.splits)
        from PI [OF pi] pi step kInput show ?thesis
          by (simp add: GenerateDatabase_param_def Let_def del: ProcessInput.simps)
      next
        case (kOutput x)
        with step show ?thesis by (simp add: GenerateDatabase_param_def)
      qed
      from Cons.IH [OF rest] step' False show ?thesis
        by (simp only: GenerateDatabase_loop_Cons if_False option.case prod.case)
    qed
  qed
  show ?case
  proof (cases "IsTrack (node_at env (dep_node dep))")
    case True
    with Suc.prems show ?thesis by simp
  next
    case False
    with Suc.prems obtain database w1 where
      l: "GenerateDatabase_loop fuel env (node_at env (dep_node dep)) (dep_range dep) (parameters (node_at env (dep_node dep))) Map.empty w = Some (database, w1)"
      by (auto simp: Let_def split: option.splits)
    from loop [OF l] l Suc.prems False show ?thesis
      by (simp add: Let_def)
  qed
qed

lemma ProcessNode_more_fuel:
  "ProcessNode fuel env dep w = Some r \<Longrightarrow> ProcessNode (fuel + extra) env dep w = Some r"
  by (induction extra) (simp_all add: ProcessNode_Suc_fuel del: ProcessNode.simps)

lemma ProcessNode_returns:
  assumes acyclic: "acyclic_by env rank"
  shows "rank (dep_node dep) < fuel \<Longrightarrow> \<exists>r. ProcessNode fuel env dep w = Some r"
proof (induction fuel arbitrary: dep w)
  case 0
  then show ?case by simp
next
  case (Suc fuel)
  define node where "node = node_at env (dep_node dep)"
  have input: "\<exists>r. ProcessInput fuel env input rng w = Some r"
    if "kInput input \<in> set (parameters node)" for input rng w
  proof (cases "connected_node input")
    case None
    then show ?thesis by simp
  next
    case (Some m)
    with that acyclic have "rank m < rank (dep_node dep)"
      unfolding acyclic_by_def node_def by blast
    with Suc.prems have "rank (dep_node \<lparr>dep_node = m, dep_range = rng\<rparr>) < fuel" by simp
    from Suc.IH [OF this] Some show ?thesis by (simp del: ProcessNode.simps)
  qed
  have param: "\<exists>r. GenerateDatabase_param fuel env node rng p database w = Some r"
    if "p \<in> set (parameters node)" for p rng database w
  proof (cases p)
    case (kInput i)
    with that input obtain r where
      "ProcessInput fuel env i (InputTimeAdjustment node i rng) w = Some r" by blast
    with kInput show ?thesis
      by (cases r) (simp add: GenerateDatabase_param_def Let_def del: ProcessInput.simps split: prod.splits)
  next
    case (kOutput x)
    then show ?thesis by (simp add: GenerateDatabase_param_def)
  qed
  have loop: "\<exists>r. GenerateDatabase_loop fuel env node rng ps database w = Some r"
    if "set ps \<subseteq> set (parameters node)" for ps rng database w
    using that
  proof (induction ps arbitrary: database w)
    case Nil
    then show ?case by simp
  next
    case (Cons p ps)
    from Cons.prems param obtain database1 w1 where
      "GenerateDatabase_param fuel env node rng p database (emit [EvIsCancelled False] w) = Some (database1, w1)"
      by fastforce
    moreover from Cons.prems have "\<exists>r. GenerateDatabase_loop fuel env node rng ps database1 w1 = Some r"
      by (intro Cons.IH) simp
    ultimately show ?case
      by (simp only: GenerateDatabase_loop_Cons) simp
  qed
  from loop [of "parameters node"] obtain r where
    "GenerateDatabase_loop fuel env node (dep_range dep) (parameters node) Map.empty w = Some r"
    by blast
  then show ?case
    by (cases r) (simp add: node_def Let_def)
qed

text \<open>The examples, evaluated.\<close>

lemmas example_defs =
  example_stream_def footage_input_def text_input_def texture_input_def media_node_def
  title_node_def merge_node_def graph_def graph_rank_def oiio_worker_def idle_def frame_10_20_def
  still_decoder_def png_def

lemmas worker_defs =
  GenerateDatabase_footage_def ResolveStreamFromInput_def ResolveDecoderFromInput_def
  ReportUnavailableFootage_def GenerateDatabase_param_def GenerateDatabase_def RenderInternal_def
  Render_def RunNodeAccelerated_def Push_def Insert_def emit_def cancelled_from_def
  Open_def GetRetrieveState_def RetrieveVideo_def int_div_def INT_MIN_def kRGBAChannels_def Let_def

lemma acyclic_graph: "acyclic_by (oiio_worker image_open cancel) graph_rank"
  by (auto simp: acyclic_by_def example_defs split: if_splits)

lemma resolve_png:
  "decoder_cache w (Some 1) = None \<Longrightarrow>
   ResolveDecoderFromInput (oiio_worker png cancel) (Some example_stream) w = (Some opened_png, resolved w)"
  by (simp add: ResolveDecoderFromInput_miss example_stream_def)
     (simp add: oiio_worker_def still_decoder_def png_def Open_def kRGBAChannels_def opened_png_def
        resolved_def)

lemma example_RenderBlock: "RenderBlock_reports_path (never_ready (oiio_worker png cancel))"
  by (simp add: RenderBlock_reports_path_def reports_path_def never_ready_def oiio_worker_def)

text \<open>The footage step and the resolution of a decoder only add events, none of them a
  poll.\<close>

lemma ResolveDecoderFromInput_events:
  "\<exists>evs. trace (snd (ResolveDecoderFromInput env stream w)) = trace w @ evs
     \<and> (\<forall>b. EvIsCancelled b \<notin> set evs)"
proof (cases stream)
  case None
  then show ?thesis by (simp add: ResolveDecoderFromInput_None)
next
  case (Some st)
  then show ?thesis
    by (cases "decoder_cache w (Some (stream_ptr st))")
       (auto simp: ResolveDecoderFromInput_miss ResolveDecoderFromInput_hit split: prod.splits bool.splits)
qed

lemma GenerateDatabase_footage_events:
  "\<exists>evs. trace (snd (GenerateDatabase_footage env input sub table w)) = trace w @ evs
     \<and> (\<forall>b. EvIsCancelled b \<notin> set evs)"
proof (cases "ResolveStreamFromInput input")
  case None
  then show ?thesis by (simp add: GenerateDatabase_footage_def)
next
  case (Some st)
  obtain decoder wa where r: "ResolveDecoderFromInput env (Some st) w = (decoder, wa)"
    by (cases "ResolveDecoderFromInput env (Some st) w")
  from ResolveDecoderFromInput_events [of env "Some st" w] r obtain evs where
    e: "trace wa = trace w @ evs" "\<forall>b. EvIsCancelled b \<notin> set evs"
    by auto
  show ?thesis
  proof (cases decoder)
    case None
    with Some r e show ?thesis by (simp add: GenerateDatabase_footage_def)
  next
    case (Some d)
    with \<open>ResolveStreamFromInput input = Some st\<close> r e show ?thesis
      by (cases "Decoder_GetRetrieveState env d (tr_out sub) = kReady";
          cases "RetrieveFromDecoder env d sub")
         (simp_all add: GenerateDatabase_footage_def ReportUnavailableFootage_def Let_def)
  qed
qed

section \<open>The claims about the worker\<close>

text \<open>
  Claim C1, as the code has it. When the poll before a parameter of a node (an input or
  not), reached with no earlier poll answering true, finds the cancellation flag set,
  \<open>GenerateDatabase\<close> stops there, drops the tables gathered so far and returns an empty
  database. \<open>ProcessNode\<close> does not stop: it hands the empty database to the node's
  \<open>Value\<close> and returns the table that \<open>Value\<close> makes of it.
\<close>

theorem cancelled_at_parameter:
  assumes "node = node_at env (dep_node dep)" and "\<not> IsTrack node"
    and "parameters node = done @ param # rest"
    and "GenerateDatabase_prefix fuel env node (dep_range dep) done Map.empty w = Some (database1, w1)"
    and "IsCancelled env (trace w1)"
  shows "GenerateDatabase fuel env node (dep_range dep) w = Some (Map.empty, emit [EvIsCancelled True] w1)
       \<and> ProcessNode (Suc fuel) env dep w = Some (Value node Map.empty, emit [EvIsCancelled True] w1)"
proof -
  have loop: "GenerateDatabase_loop fuel env node (dep_range dep) (parameters node) Map.empty w
      = Some (Map.empty, emit [EvIsCancelled True] w1)"
    using assms(4,5) by (simp only: assms(3) GenerateDatabase_loop_append GenerateDatabase_loop_Cons if_True)
  show ?thesis
    using loop assms(1,2) by (simp add: GenerateDatabase_def RunNodeAccelerated_def)
qed

text \<open>
  The claim as it is written, that the evaluation returns an empty table, fails on a
  node whose \<open>Value\<close> pushes a value whatever its database holds: the flag is set before
  the first input of the title node, and the evaluation returns a table of one entry.
\<close>

theorem cancelled_at_parameter_counterexample:
  "IsCancelled (oiio_worker png (cancelled_from 0)) (trace idle)
   \<and> parameters (node_at (oiio_worker png (cancelled_from 0)) 0) = [kInput text_input, kOutput 0]
   \<and> ProcessNode 1 (oiio_worker png (cancelled_from 0)) \<lparr>dep_node = 0, dep_range = \<lparr>tr_in = 10, tr_out = 20\<rparr>\<rparr> idle
      = Some ([(kOtherType 1, QOther 0)], emit [EvIsCancelled True] idle)"
  by (simp add: example_defs worker_defs)

text \<open>The title node with the flag set after its first parameter.\<close>

theorem cancelled_at_parameter_witness:
  "title_node = node_at (oiio_worker png (cancelled_from 1)) 0 \<and> \<not> IsTrack title_node
   \<and> parameters title_node = [kInput text_input] @ kOutput 0 # []
   \<and> GenerateDatabase_prefix 0 (oiio_worker png (cancelled_from 1)) title_node \<lparr>tr_in = 10, tr_out = 20\<rparr>
        [kInput text_input] Map.empty idle
      = Some ([2 \<mapsto> [(kOtherType 0, QInt 5)]], emit [EvIsCancelled False] idle)
   \<and> IsCancelled (oiio_worker png (cancelled_from 1)) (trace (emit [EvIsCancelled False] idle))
   \<and> ProcessNode 1 (oiio_worker png (cancelled_from 1)) \<lparr>dep_node = 0, dep_range = \<lparr>tr_in = 10, tr_out = 20\<rparr>\<rparr> idle
      = Some ([(kOtherType 1, QOther 0)], emit [EvIsCancelled False, EvIsCancelled True] idle)"
proof -
  let ?env = "oiio_worker png (cancelled_from 1)"
  let ?dep = "\<lparr>dep_node = 0, dep_range = \<lparr>tr_in = 10, tr_out = 20\<rparr>\<rparr>"
  have a: "title_node = node_at ?env (dep_node ?dep)" by (simp add: oiio_worker_def graph_def)
  have b: "\<not> IsTrack title_node" by (simp add: title_node_def)
  have c: "parameters title_node = [kInput text_input] @ kOutput 0 # []" by (simp add: title_node_def)
  have d: "GenerateDatabase_prefix 0 ?env title_node (dep_range ?dep) [kInput text_input] Map.empty idle
      = Some ([2 \<mapsto> [(kOtherType 0, QInt 5)]], emit [EvIsCancelled False] idle)"
    by (simp add: example_defs worker_defs)
  have e: "IsCancelled ?env (trace (emit [EvIsCancelled False] idle))"
    by (simp add: example_defs worker_defs)
  have v: "Value title_node Map.empty = [(kOtherType 1, QOther 0)]"
    by (simp add: title_node_def Push_def)
  from cancelled_at_parameter [OF a b c d e] a b c d e v show ?thesis
    by (simp add: emit_emit del: ProcessNode.simps GenerateDatabase_prefix.simps)
qed

text \<open>
  Claim C2. For a footage input whose stream has no decoder in the cache, when \<open>Open\<close>
  of the newly created decoder fails: \<open>ResolveDecoderFromInput\<close> returns no decoder, the
  warning is the only thing reported, the cache is what it was (there is no \<open>Add\<close>), the
  table inserted for the input is the one \<open>ProcessInput\<close> returned, with no frame data,
  and the loop goes on with the parameters that are left.
\<close>

theorem failed_open_is_not_cached:
  assumes "data_type input = kFootage" and "ResolveStreamFromInput input = Some st"
    and "ProcessInput fuel env input (InputTimeAdjustment node input rng) w0 = Some (table, w1)"
    and "decoder_cache w1 (Some (stream_ptr st)) = None"
    and "\<not> fst (Decoder_Open env (set_stream env (Some st) (CreateFromID env (footage_decoder st))))"
    and "w2 = emit [EvLock, EvCacheGet (Some (stream_ptr st)),
                    EvCreateFromID (footage_decoder st) (Some (stream_ptr st)),
                    EvOpen (Some (stream_ptr st)) False,
                    EvWarning (footage_filename st) (stream_index st), EvUnlock] w1"
  shows "ResolveDecoderFromInput env (Some st) w1 = (None, w2)
    \<and> decoder_cache w2 = decoder_cache w1
    \<and> GenerateDatabase_param fuel env node rng (kInput input) database w0
        = Some (Insert input table database, w2)
    \<and> (\<not> IsCancelled env (trace w) \<and> w0 = emit [EvIsCancelled False] w \<longrightarrow>
        GenerateDatabase_loop fuel env node rng (kInput input # rest) database w
        = GenerateDatabase_loop fuel env node rng rest (Insert input table database) w2)"
proof -
  obtain ok opened where
    o: "Decoder_Open env (set_stream env (Some st) (CreateFromID env (footage_decoder st))) = (ok, opened)"
    by (cases "Decoder_Open env (set_stream env (Some st) (CreateFromID env (footage_decoder st)))")
  with assms(5) have "\<not> ok" by simp
  with o have r: "ResolveDecoderFromInput env (Some st) w1 = (None, w2)"
    by (simp add: ResolveDecoderFromInput_miss [OF assms(4)] assms(6))
  have f: "GenerateDatabase_footage env input (InputTimeAdjustment node input rng) table w1 = (table, w2)"
    using assms(2) r by (simp add: GenerateDatabase_footage_def)
  have p: "GenerateDatabase_param fuel env node rng (kInput input) database w0
        = Some (Insert input table database, w2)"
    using assms(1,3) f by (simp add: GenerateDatabase_param_def Let_def del: ProcessInput.simps)
  have l: "GenerateDatabase_loop fuel env node rng (kInput input # rest) database w
        = GenerateDatabase_loop fuel env node rng rest (Insert input table database) w2"
    if "\<not> IsCancelled env (trace w)" "w0 = emit [EvIsCancelled False] w"
    using that p by (simp only: GenerateDatabase_loop_Cons if_False) simp
  from r p l assms(6) show ?thesis by simp
qed

text \<open>The footage input of the media node when the file cannot be opened.\<close>

theorem failed_open_is_not_cached_witness:
  "data_type footage_input = kFootage \<and> ResolveStreamFromInput footage_input = Some example_stream
   \<and> ProcessInput 0 (oiio_worker (\<lambda>name. None) (cancelled_from 100)) footage_input
        (InputTimeAdjustment media_node footage_input \<lparr>tr_in = 10, tr_out = 20\<rparr>) (emit [EvIsCancelled False] idle)
      = Some ([(kFootage, QStreamPtr (Some example_stream))], emit [EvIsCancelled False] idle)
   \<and> decoder_cache (emit [EvIsCancelled False] idle) (Some (stream_ptr example_stream)) = None
   \<and> \<not> fst (Decoder_Open (oiio_worker (\<lambda>name. None) (cancelled_from 100))
          (set_stream (oiio_worker (\<lambda>name. None) (cancelled_from 100)) (Some example_stream)
             (CreateFromID (oiio_worker (\<lambda>name. None) (cancelled_from 100)) (footage_decoder example_stream))))
   \<and> \<not> IsCancelled (oiio_worker (\<lambda>name. None) (cancelled_from 100)) (trace idle)
   \<and> GenerateDatabase_loop 0 (oiio_worker (\<lambda>name. None) (cancelled_from 100)) media_node
        \<lparr>tr_in = 10, tr_out = 20\<rparr> [kInput footage_input] Map.empty idle
      = Some ([1 \<mapsto> [(kFootage, QStreamPtr (Some example_stream))]],
          emit [EvIsCancelled False, EvLock, EvCacheGet (Some 1), EvCreateFromID ''oiio'' (Some 1),
                EvOpen (Some 1) False, EvWarning ''a.png'' 0, EvUnlock] idle)"
proof -
  let ?env = "oiio_worker (\<lambda>name. None) (cancelled_from 100)"
  let ?w0 = "emit [EvIsCancelled False] idle"
  have a: "data_type footage_input = kFootage" by (simp add: footage_input_def)
  have b: "ResolveStreamFromInput footage_input = Some example_stream"
    by (simp add: footage_input_def ResolveStreamFromInput_def)
  have c: "ProcessInput 0 ?env footage_input
        (InputTimeAdjustment media_node footage_input \<lparr>tr_in = 10, tr_out = 20\<rparr>) ?w0
      = Some ([(kFootage, QStreamPtr (Some example_stream))], ?w0)"
    by (simp add: footage_input_def Push_def)
  have d: "decoder_cache ?w0 (Some (stream_ptr example_stream)) = None"
    by (simp add: idle_def)
  have e: "\<not> fst (Decoder_Open ?env (set_stream ?env (Some example_stream)
             (CreateFromID ?env (footage_decoder example_stream))))"
    by (simp add: oiio_worker_def Open_def)
  have f: "\<not> IsCancelled ?env (trace idle)"
    by (simp add: oiio_worker_def cancelled_from_def idle_def)
  have g: "stream_ptr example_stream = 1" "footage_decoder example_stream = ''oiio''"
    "footage_filename example_stream = ''a.png''" "stream_index example_stream = 0"
    "input_id footage_input = 1"
    by (simp_all add: example_stream_def footage_input_def)
  from failed_open_is_not_cached [OF a b c d e refl, where w = idle and rest = "[]"
      and database = Map.empty]
  show ?thesis using a b c d e f g
    by (simp add: emit_emit Insert_def del: ProcessInput.simps GenerateDatabase_loop.simps(2))
qed

text \<open>
  Claim C3, as the code has it. For a footage input whose stream and decoder are
  resolved, the worker asks the decoder for its state at the end of the adjusted
  sub-range. When the state is \<open>kReady\<close> it calls \<open>RetrieveFromDecoder\<close> for the sub-range
  and, if a frame comes back, the table becomes what \<open>FrameToValue\<close> makes of stream,
  frame and table; if no frame comes back the table stays as it was. When the state
  is not \<open>kReady\<close> it emits \<open>FootageUnavailable\<close> with the stream, the state, the range
  of the member \<open>path_\<close> and the end of the sub-range, and the table stays as it was.
  Under \<open>Render\<close> the member \<open>path_\<close> is the descriptor passed to \<open>Render\<close>, so every such
  signal of the evaluation carries that descriptor's range.
\<close>

theorem footage_state_decides:
  assumes "data_type input = kFootage" and "ResolveStreamFromInput input = Some st"
    and "input_time = InputTimeAdjustment node input rng"
    and "ProcessInput fuel env input input_time w0 = Some (table, w1)"
    and "ResolveDecoderFromInput env (Some st) w1 = (Some d, w2)"
    and "state = Decoder_GetRetrieveState env d (tr_out input_time)"
    and "asked = EvGetRetrieveState (Some (stream_ptr st)) (tr_out input_time) state"
    and "RenderBlock_reports_path env"
  shows "GenerateDatabase_param fuel env node rng (kInput input) database w0 =
      (if state = kReady then
         Some (Insert input
                 (case RetrieveFromDecoder env d input_time of
                    None \<Rightarrow> table
                  | Some frame \<Rightarrow> FrameToValue env (Some st) frame table) database,
               emit [asked, EvRetrieveFromDecoder (Some (stream_ptr st)) input_time] w2)
       else
         Some (Insert input table database,
               emit [asked, EvFootageUnavailable (Some st) state (dep_range (m_path w0))
                              (tr_out input_time)] w2))
    \<and> (Render fuel' env path job_time w = Some w' \<longrightarrow>
         m_path w' = path \<and> take (length (trace w)) (trace w') = trace w
         \<and> list_all (reports_range (dep_range path)) (drop (length (trace w)) (trace w')))"
proof
  from ProcessInput_reports_path [OF assms(8,4)] have "m_path w1 = m_path w0"
    by (simp add: reports_path_def)
  moreover from ResolveDecoderFromInput_m_path [of env "Some st" w1] assms(5)
  have "m_path w2 = m_path w1" by simp
  ultimately have p: "m_path w2 = m_path w0" by simp
  have f: "GenerateDatabase_footage env input input_time table w1 =
      (if state = kReady then
         (case RetrieveFromDecoder env d input_time of
            None \<Rightarrow> table
          | Some frame \<Rightarrow> FrameToValue env (Some st) frame table,
          emit [asked, EvRetrieveFromDecoder (Some (stream_ptr st)) input_time] w2)
       else
         (table, emit [asked, EvFootageUnavailable (Some st) state (dep_range (m_path w0))
                              (tr_out input_time)] w2))"
    using assms(2,5,6,7) p
    by (simp add: GenerateDatabase_footage_def ReportUnavailableFootage_def Let_def emit_emit
        split: option.splits)
  show "GenerateDatabase_param fuel env node rng (kInput input) database w0 =
      (if state = kReady then
         Some (Insert input
                 (case RetrieveFromDecoder env d input_time of
                    None \<Rightarrow> table
                  | Some frame \<Rightarrow> FrameToValue env (Some st) frame table) database,
               emit [asked, EvRetrieveFromDecoder (Some (stream_ptr st)) input_time] w2)
       else
         Some (Insert input table database,
               emit [asked, EvFootageUnavailable (Some st) state (dep_range (m_path w0))
                              (tr_out input_time)] w2))"
    using assms(1,4) f unfolding assms(3)
    by (simp add: GenerateDatabase_param_def Let_def del: ProcessInput.simps)
next
  show "Render fuel' env path job_time w = Some w' \<longrightarrow>
         m_path w' = path \<and> take (length (trace w)) (trace w') = trace w
         \<and> list_all (reports_range (dep_range path)) (drop (length (trace w)) (trace w'))"
  proof
    assume "Render fuel' env path job_time w = Some w'"
    then obtain table w1 where
      n: "ProcessNode (Suc fuel') env path (w\<lparr>m_path := path\<rparr>) = Some (table, w1)"
      and w': "w' = emit [EvCompletedCache path table job_time] w1"
      by (auto simp: Render_def RenderInternal_def simp del: ProcessNode.simps split: option.splits)
    from ProcessNode_reports_path [OF assms(8) n] obtain evs where
      "m_path w1 = path" "trace w1 = trace w @ evs" "list_all (reports_range (dep_range path)) evs"
      unfolding reports_path_iff by auto
    with w' show "m_path w' = path \<and> take (length (trace w)) (trace w') = trace w
         \<and> list_all (reports_range (dep_range path)) (drop (length (trace w)) (trace w'))"
      by (simp add: reports_range_def)
  qed
qed

text \<open>
  The claim as it is written, that a ready decoder always leads to a pushed value, fails
  when \<open>RetrieveFromDecoder\<close> returns no frame: the state is \<open>kReady\<close>, the retrieval is
  made, and the table of the media node holds the input's own value only.
\<close>

theorem footage_state_decides_counterexample:
  "observed (ProcessNode 1 (without_frames (oiio_worker png (cancelled_from 100))) frame_10_20 idle) =
      Some ([(kFootage, QStreamPtr (Some example_stream))],
            [EvIsCancelled False, EvIsCancelled False, EvLock, EvCacheGet (Some 1),
             EvCreateFromID ''oiio'' (Some 1), EvOpen (Some 1) True, EvCacheAdd (Some 1), EvUnlock,
             EvGetRetrieveState (Some 1) 20 kReady,
             EvRetrieveFromDecoder (Some 1) \<lparr>tr_in = 10, tr_out = 20\<rparr>])"
  by (simp add: example_defs worker_defs observed_def without_frames_def)

text \<open>A decoder that is not ready, asked inside an evaluation of the range from 10 to 20
  for the sub-range from 11 to 21.\<close>

theorem footage_state_decides_witness:
  "data_type footage_input = kFootage \<and> ResolveStreamFromInput footage_input = Some example_stream
   \<and> InputTimeAdjustment media_node footage_input \<lparr>tr_in = 11, tr_out = 21\<rparr> = \<lparr>tr_in = 11, tr_out = 21\<rparr>
   \<and> ProcessInput 0 (never_ready (oiio_worker png (cancelled_from 100))) footage_input
        \<lparr>tr_in = 11, tr_out = 21\<rparr> busy
      = Some ([(kFootage, QStreamPtr (Some example_stream))], busy)
   \<and> ResolveDecoderFromInput (never_ready (oiio_worker png (cancelled_from 100))) (Some example_stream) busy
      = (Some opened_png, resolved busy)
   \<and> Decoder_GetRetrieveState (never_ready (oiio_worker png (cancelled_from 100))) opened_png 21 = kNotReady
   \<and> RenderBlock_reports_path (never_ready (oiio_worker png (cancelled_from 100)))
   \<and> GenerateDatabase_param 0 (never_ready (oiio_worker png (cancelled_from 100))) media_node
        \<lparr>tr_in = 11, tr_out = 21\<rparr> (kInput footage_input) Map.empty busy
      = Some ([1 \<mapsto> [(kFootage, QStreamPtr (Some example_stream))]],
              emit [EvGetRetrieveState (Some 1) 21 kNotReady,
                    EvFootageUnavailable (Some example_stream) kNotReady \<lparr>tr_in = 10, tr_out = 20\<rparr> 21]
                (resolved busy))
   \<and> map_option trace (Render 1 (never_ready (oiio_worker png (cancelled_from 100)))
        \<lparr>dep_node = 1, dep_range = \<lparr>tr_in = 10, tr_out = 20\<rparr>\<rparr> 7 idle)
      = Some [EvIsCancelled False, EvIsCancelled False, EvIsCancelled False, EvLock,
              EvCacheGet (Some 1), EvCreateFromID ''oiio'' (Some 1), EvOpen (Some 1) True,
              EvCacheAdd (Some 1), EvUnlock, EvGetRetrieveState (Some 1) 21 kNotReady,
              EvFootageUnavailable (Some example_stream) kNotReady \<lparr>tr_in = 10, tr_out = 20\<rparr> 21,
              EvCompletedCache \<lparr>dep_node = 1, dep_range = \<lparr>tr_in = 10, tr_out = 20\<rparr>\<rparr>
                [(kFootage, QStreamPtr (Some example_stream))] 7]
   \<and> list_all (reports_range \<lparr>tr_in = 10, tr_out = 20\<rparr>)
        (drop (length (trace idle))
          (trace (the (Render 1 (never_ready (oiio_worker png (cancelled_from 100)))
             \<lparr>dep_node = 1, dep_range = \<lparr>tr_in = 10, tr_out = 20\<rparr>\<rparr> 7 idle))))"
proof -
  let ?env = "never_ready (oiio_worker png (cancelled_from 100))"
  let ?path = "\<lparr>dep_node = 1, dep_range = \<lparr>tr_in = 10, tr_out = 20\<rparr>\<rparr>"
  have a: "data_type footage_input = kFootage" by (simp add: footage_input_def)
  have b: "ResolveStreamFromInput footage_input = Some example_stream"
    by (simp add: footage_input_def ResolveStreamFromInput_def)
  have c: "\<lparr>tr_in = 11, tr_out = 21\<rparr> = InputTimeAdjustment media_node footage_input \<lparr>tr_in = 11, tr_out = 21\<rparr>"
    by (simp add: media_node_def)
  have d: "ProcessInput 0 ?env footage_input \<lparr>tr_in = 11, tr_out = 21\<rparr> busy
      = Some ([(kFootage, QStreamPtr (Some example_stream))], busy)"
    by (simp add: footage_input_def Push_def)
  have e: "ResolveDecoderFromInput ?env (Some example_stream) busy = (Some opened_png, resolved busy)"
    by (simp add: ResolveDecoderFromInput_miss example_stream_def busy_def idle_def)
       (simp add: never_ready_def oiio_worker_def still_decoder_def png_def Open_def kRGBAChannels_def
          opened_png_def resolved_def emit_def)
  have f: "kNotReady = Decoder_GetRetrieveState ?env opened_png (tr_out \<lparr>tr_in = 11, tr_out = 21\<rparr>)"
    by (simp add: never_ready_def)
  have g: "map_option trace (Render 1 ?env ?path 7 idle)
      = Some [EvIsCancelled False, EvIsCancelled False, EvIsCancelled False, EvLock,
              EvCacheGet (Some 1), EvCreateFromID ''oiio'' (Some 1), EvOpen (Some 1) True,
              EvCacheAdd (Some 1), EvUnlock, EvGetRetrieveState (Some 1) 21 kNotReady,
              EvFootageUnavailable (Some example_stream) kNotReady \<lparr>tr_in = 10, tr_out = 20\<rparr> 21,
              EvCompletedCache ?path [(kFootage, QStreamPtr (Some example_stream))] 7]"
    by (simp add: example_defs worker_defs never_ready_def)
  then obtain w' where h: "Render 1 ?env ?path 7 idle = Some w'" by auto
  have i: "stream_ptr example_stream = 1" "input_id footage_input = 1"
    "dep_range (m_path busy) = \<lparr>tr_in = 10, tr_out = 20\<rparr>"
    by (simp_all add: example_stream_def footage_input_def busy_def)
  from footage_state_decides [OF a b c d e f refl example_RenderBlock,
      where database = Map.empty and fuel' = 1 and path = ?path and job_time = 7 and w = idle and w' = w']
    a b c [symmetric] d e f [symmetric, simplified] g h i example_RenderBlock
  show ?thesis
    by (simp add: Insert_def del: ProcessInput.simps)
qed

text \<open>
  Claim C4. Resolving an unconnected input over a sub-range returns a table holding
  exactly one entry, the input's data type with its own value at the start of the
  sub-range, and leaves the worker as it was; the table is the same with any fuel, any
  collaborators and any worker, so resolving again gives it again.
\<close>

theorem unconnected_input_is_sampled:
  assumes "connected_node input = None"
  shows "ProcessInput fuel env input rng w =
      Some ([(data_type input, get_value_at_time input (tr_in rng))], w)
    \<and> map_option fst (ProcessInput fuel' env' input rng w') =
      map_option fst (ProcessInput fuel env input rng w)"
  using assms by (simp add: Push_def)

text \<open>The literal input of the title node.\<close>

theorem unconnected_input_is_sampled_witness:
  "connected_node text_input = None
   \<and> ProcessInput 0 (oiio_worker png (cancelled_from 0)) text_input \<lparr>tr_in = 10, tr_out = 20\<rparr> idle =
       Some ([(kOtherType 0, QInt 5)], idle)
   \<and> map_option fst (ProcessInput 3 (oiio_worker (\<lambda>name. None) (cancelled_from 7)) text_input
         \<lparr>tr_in = 10, tr_out = 20\<rparr> (emit [EvLock] idle)) = Some [(kOtherType 0, QInt 5)]"
proof -
  have c: "connected_node text_input = None" by (simp add: text_input_def)
  have d: "data_type text_input = kOtherType 0" "get_value_at_time text_input 10 = QInt 5"
    by (simp_all add: text_input_def)
  from unconnected_input_is_sampled [OF c, where fuel = 0 and env = "oiio_worker png (cancelled_from 0)"
      and rng = "\<lparr>tr_in = 10, tr_out = 20\<rparr>" and w = idle and fuel' = 3
      and env' = "oiio_worker (\<lambda>name. None) (cancelled_from 7)" and w' = "emit [EvLock] idle"]
  show ?thesis using c d by (simp del: ProcessInput.simps)
qed

text \<open>
  Claim C5. When the database generation of a node evaluated over the range R comes,
  with no poll answering true, to a connected input, it resolves the input over the
  adjusted sub-range \<open>InputTimeAdjustment node input R\<close>, and the table it gets is the
  result of \<open>ProcessNode\<close> on the connected node over that sub-range: that table (for a
  footage input, after the footage step) is what is inserted for the input before the
  loop goes on. In an acyclic graph, with fuel for the rank of the node, the
  evaluation of the connected node returns, and more fuel returns the same.
\<close>

theorem connected_input_evaluates_node:
  assumes "acyclic_by env rank" and "node = node_at env n" and "rank n \<le> fuel"
    and "parameters node = done @ kInput input # rest"
    and "connected_node input = Some m"
    and "GenerateDatabase_prefix fuel env node R done Map.empty w = Some (database1, w1)"
    and "\<not> IsCancelled env (trace w1)"
    and "sub = InputTimeAdjustment node input R"
  shows "\<exists>table w2.
      ProcessNode fuel env \<lparr>dep_node = m, dep_range = sub\<rparr> (emit [EvIsCancelled False] w1)
        = Some (table, w2)
    \<and> ProcessInput fuel env input sub (emit [EvIsCancelled False] w1) = Some (table, w2)
    \<and> (\<forall>extra. ProcessNode (fuel + extra) env \<lparr>dep_node = m, dep_range = sub\<rparr>
           (emit [EvIsCancelled False] w1) = Some (table, w2))
    \<and> GenerateDatabase fuel env node R w =
        (case (if data_type input = kFootage
               then GenerateDatabase_footage env input sub table w2 else (table, w2)) of
           (table1, w3) \<Rightarrow>
             GenerateDatabase_loop fuel env node R rest (Insert input table1 database1) w3)
    \<and> (data_type input \<noteq> kFootage \<longrightarrow>
          GenerateDatabase_prefix fuel env node R (done @ [kInput input]) Map.empty w
            = Some (database1(input_id input \<mapsto> table), w2))"
proof -
  let ?dep = "\<lparr>dep_node = m, dep_range = sub\<rparr>"
  let ?w0 = "emit [EvIsCancelled False] w1"
  have "kInput input \<in> set (parameters (node_at env n))"
    using assms(2,4) by simp
  with assms(1,3,5) have "rank (dep_node ?dep) < fuel"
    unfolding acyclic_by_def by fastforce
  from ProcessNode_returns [OF assms(1) this, of ?w0] obtain table w2 where
    r: "ProcessNode fuel env ?dep ?w0 = Some (table, w2)"
    by fastforce
  have pi: "ProcessInput fuel env input sub ?w0 = Some (table, w2)"
    using assms(5) r by simp
  have param: "GenerateDatabase_param fuel env node R (kInput input) database1 ?w0 =
      (case (if data_type input = kFootage
               then GenerateDatabase_footage env input sub table w2 else (table, w2)) of
           (table1, w3) \<Rightarrow> Some (Insert input table1 database1, w3))"
    using pi by (simp add: GenerateDatabase_param_def assms(8) [symmetric] del: ProcessInput.simps)
  have "GenerateDatabase fuel env node R w
      = GenerateDatabase_loop fuel env node R (kInput input # rest) database1 w1"
    unfolding GenerateDatabase_def assms(4) by (rule GenerateDatabase_loop_append [OF assms(6)])
  also have "\<dots> = (case (if data_type input = kFootage
               then GenerateDatabase_footage env input sub table w2 else (table, w2)) of
           (table1, w3) \<Rightarrow>
             GenerateDatabase_loop fuel env node R rest (Insert input table1 database1) w3)"
    using assms(7) param
    by (simp only: GenerateDatabase_loop_Cons if_False) (simp split: prod.splits)
  finally have gd: "GenerateDatabase fuel env node R w =
        (case (if data_type input = kFootage
               then GenerateDatabase_footage env input sub table w2 else (table, w2)) of
           (table1, w3) \<Rightarrow>
             GenerateDatabase_loop fuel env node R rest (Insert input table1 database1) w3)" .
  have prefix_append: "GenerateDatabase_prefix fuel env node R (xs @ ys) db v
      = (case GenerateDatabase_prefix fuel env node R xs db v of None \<Rightarrow> None
         | Some (db', v') \<Rightarrow> GenerateDatabase_prefix fuel env node R ys db' v')" for xs ys db v
    by (induction xs arbitrary: db v) (auto split: option.splits)
  have pre: "GenerateDatabase_prefix fuel env node R (done @ [kInput input]) Map.empty w
            = Some (database1(input_id input \<mapsto> table), w2)" if "data_type input \<noteq> kFootage"
    using that assms(6,7) param by (simp add: prefix_append Insert_def)
  from r pi ProcessNode_more_fuel [OF r] gd pre show ?thesis
    by blast
qed

text \<open>The merge node over the range from 10 to 20: its input is connected to the media node,
  which is evaluated over the range from 11 to 21.\<close>

theorem connected_input_evaluates_node_witness:
  "acyclic_by (oiio_worker png (cancelled_from 100)) graph_rank
   \<and> merge_node = node_at (oiio_worker png (cancelled_from 100)) 1 \<and> graph_rank 1 \<le> 1
   \<and> parameters merge_node = [] @ kInput texture_input # []
   \<and> connected_node texture_input = Some 2
   \<and> GenerateDatabase_prefix 1 (oiio_worker png (cancelled_from 100)) merge_node
        \<lparr>tr_in = 10, tr_out = 20\<rparr> [] Map.empty idle = Some (Map.empty, idle)
   \<and> \<not> IsCancelled (oiio_worker png (cancelled_from 100)) (trace idle)
   \<and> \<lparr>tr_in = 11, tr_out = 21\<rparr> = InputTimeAdjustment merge_node texture_input \<lparr>tr_in = 10, tr_out = 20\<rparr>
   \<and> ProcessNode 1 (oiio_worker png (cancelled_from 100))
        \<lparr>dep_node = 2, dep_range = \<lparr>tr_in = 11, tr_out = 21\<rparr>\<rparr> (emit [EvIsCancelled False] idle)
      = Some ([(kFootage, QStreamPtr (Some example_stream)), (kFootage, QOther 320)],
              emit [EvGetRetrieveState (Some 1) 21 kReady,
                    EvRetrieveFromDecoder (Some 1) \<lparr>tr_in = 11, tr_out = 21\<rparr>]
                (resolved (emit [EvIsCancelled False, EvIsCancelled False, EvIsCancelled False] idle)))
   \<and> GenerateDatabase 1 (oiio_worker png (cancelled_from 100)) merge_node \<lparr>tr_in = 10, tr_out = 20\<rparr> idle
      = Some ([3 \<mapsto> [(kFootage, QStreamPtr (Some example_stream)), (kFootage, QOther 320)]],
              emit [EvGetRetrieveState (Some 1) 21 kReady,
                    EvRetrieveFromDecoder (Some 1) \<lparr>tr_in = 11, tr_out = 21\<rparr>]
                (resolved (emit [EvIsCancelled False, EvIsCancelled False, EvIsCancelled False] idle)))"
proof -
  let ?env = "oiio_worker png (cancelled_from 100)"
  let ?R = "\<lparr>tr_in = 10, tr_out = 20\<rparr>"
  let ?sub = "\<lparr>tr_in = 11, tr_out = 21\<rparr>"
  let ?table = "[(kFootage, QStreamPtr (Some example_stream)), (kFootage, QOther 320)]"
  let ?w2 = "emit [EvGetRetrieveState (Some 1) 21 kReady, EvRetrieveFromDecoder (Some 1) ?sub]
                (resolved (emit [EvIsCancelled False, EvIsCancelled False, EvIsCancelled False] idle))"
  have a: "merge_node = node_at ?env 1" by (simp add: oiio_worker_def graph_def)
  have b: "graph_rank 1 \<le> 1" by (simp add: graph_rank_def)
  have c: "parameters merge_node = [] @ kInput texture_input # []" by (simp add: merge_node_def)
  have d: "connected_node texture_input = Some 2" by (simp add: texture_input_def)
  have e: "GenerateDatabase_prefix 1 ?env merge_node ?R [] Map.empty idle = Some (Map.empty, idle)"
    by simp
  have f: "\<not> IsCancelled ?env (trace idle)"
    by (simp add: oiio_worker_def cancelled_from_def idle_def)
  have g: "?sub = InputTimeAdjustment merge_node texture_input ?R"
    by (simp add: merge_node_def)
  have h: "ProcessNode 1 ?env \<lparr>dep_node = 2, dep_range = ?sub\<rparr> (emit [EvIsCancelled False] idle)
      = Some (?table, ?w2)"
    by (simp add: example_defs worker_defs resolved_def opened_png_def)
  have i: "data_type texture_input \<noteq> kFootage" "input_id texture_input = 3"
    by (simp_all add: texture_input_def)
  from connected_input_evaluates_node [OF acyclic_graph a b c d e f g]
  obtain table w2 where
    n: "ProcessNode 1 ?env \<lparr>dep_node = 2, dep_range = ?sub\<rparr> (emit [EvIsCancelled False] idle)
        = Some (table, w2)"
    and gd: "GenerateDatabase 1 ?env merge_node ?R idle =
        (case (if data_type texture_input = kFootage
               then GenerateDatabase_footage ?env texture_input ?sub table w2 else (table, w2)) of
           (table1, w3) \<Rightarrow>
             GenerateDatabase_loop 1 ?env merge_node ?R [] (Insert texture_input table1 Map.empty) w3)"
    by blast
  from n h have "table = ?table" "w2 = ?w2" by simp_all
  with gd i have "GenerateDatabase 1 ?env merge_node ?R idle = Some ([3 \<mapsto> ?table], ?w2)"
    by (simp add: Insert_def)
  with acyclic_graph a b c d e f g h show ?thesis by blast
qed

text \<open>
  Claim C6, as the code has it. A poll of the flag stands at the head of each iteration
  of a database generation; the footage step that follows for a footage input contains
  no poll and does not depend on the flag. With a flag that is set when T events have
  happened: a poll made after that ends its database generation at once with an empty
  database and nothing further done, and a plain node entered after that returns
  \<open>Value\<close> of the empty database with no decoder I/O and the cache as it was; after a
  poll made before that, an unconnected footage input whose stream misses the cache
  and whose decoder opens and is ready has its decoder created, opened, asked and read
  in full, however soon after the poll the flag is set; and when the processing of a
  parameter has returned and the flag is set by then, the poll before the next
  parameter ends the database generation.
\<close>

theorem cancellation_is_polled:
  assumes "IsCancelled env = cancelled_from T"
  shows "(T \<le> length (trace w) \<longrightarrow>
          GenerateDatabase_loop fuel env node rng (param # rest) database w
            = Some (Map.empty, emit [EvIsCancelled True] w))
    \<and> (T \<le> length (trace w) \<and> \<not> IsTrack (node_at env (dep_node dep)) \<longrightarrow>
          (\<exists>w'. ProcessNode (Suc fuel) env dep w = Some (Value (node_at env (dep_node dep)) Map.empty, w')
             \<and> decoder_cache w' = decoder_cache w
             \<and> filter is_decoder_io (trace w') = filter is_decoder_io (trace w)))
    \<and> GenerateDatabase_footage (env\<lparr>IsCancelled := flag\<rparr>) input sub table w
         = GenerateDatabase_footage env input sub table w
    \<and> (\<exists>evs. trace (snd (GenerateDatabase_footage env input sub table w)) = trace w @ evs
          \<and> (\<forall>b. EvIsCancelled b \<notin> set evs))
    \<and> (length (trace w) < T \<and> data_type input = kFootage \<and> connected_node input = None
        \<and> value_StreamPtr (get_value_at_time input 0) = Some st
        \<and> decoder_cache w (Some (stream_ptr st)) = None
        \<and> Decoder_Open env (set_stream env (Some st) (CreateFromID env (footage_decoder st)))
            = (True, opened)
        \<and> sub = InputTimeAdjustment node input rng
        \<and> Decoder_GetRetrieveState env opened (tr_out sub) = kReady \<longrightarrow>
          GenerateDatabase_loop fuel env node rng (kInput input # rest) database w =
          GenerateDatabase_loop fuel env node rng rest
            (Insert input
               (case RetrieveFromDecoder env opened sub of
                  None \<Rightarrow> [(kFootage, get_value_at_time input (tr_in sub))]
                | Some frame \<Rightarrow>
                    FrameToValue env (Some st) frame [(kFootage, get_value_at_time input (tr_in sub))])
               database)
            (emit [EvIsCancelled False, EvLock, EvCacheGet (Some (stream_ptr st)),
                   EvCreateFromID (footage_decoder st) (Some (stream_ptr st)),
                   EvOpen (Some (stream_ptr st)) True, EvCacheAdd (Some (stream_ptr st)), EvUnlock,
                   EvGetRetrieveState (Some (stream_ptr st)) (tr_out sub) kReady,
                   EvRetrieveFromDecoder (Some (stream_ptr st)) sub]
               (w\<lparr>decoder_cache := (decoder_cache w)(Some (stream_ptr st) \<mapsto> opened)\<rparr>)))
    \<and> (length (trace w) < T
        \<and> GenerateDatabase_param fuel env node rng param database (emit [EvIsCancelled False] w)
            = Some (database_after, w_after)
        \<and> T \<le> length (trace w_after) \<longrightarrow>
          GenerateDatabase_loop fuel env node rng (param # next_param # rest) database w
            = Some (Map.empty, emit [EvIsCancelled True] w_after))"
proof (intro conjI impI)
  show a: "GenerateDatabase_loop fuel env node rng (param # rest) database w
            = Some (Map.empty, emit [EvIsCancelled True] w)"
    if "T \<le> length (trace w)" for fuel node rng param rest database and w :: "'a RenderWorker"
    using that assms by (simp only: GenerateDatabase_loop_Cons cancelled_from_def if_True)
  show "\<exists>w'. ProcessNode (Suc fuel) env dep w = Some (Value (node_at env (dep_node dep)) Map.empty, w')
             \<and> decoder_cache w' = decoder_cache w
             \<and> filter is_decoder_io (trace w') = filter is_decoder_io (trace w)"
    if "T \<le> length (trace w) \<and> \<not> IsTrack (node_at env (dep_node dep))"
  proof (cases "parameters (node_at env (dep_node dep))")
    case Nil
    with that show ?thesis by (simp add: RunNodeAccelerated_def)
  next
    case (Cons p ps)
    with that a [of w fuel "node_at env (dep_node dep)" "dep_range dep" p ps Map.empty] show ?thesis
      by (simp add: RunNodeAccelerated_def del: GenerateDatabase_loop.simps)
  qed
  show "GenerateDatabase_footage (env\<lparr>IsCancelled := flag\<rparr>) input sub table w
         = GenerateDatabase_footage env input sub table w"
  proof -
    have "ResolveDecoderFromInput (env\<lparr>IsCancelled := flag\<rparr>) s v = ResolveDecoderFromInput env s v"
      for s and v :: "'a RenderWorker"
      by (simp add: ResolveDecoderFromInput_def Let_def split: option.splits prod.splits)
    then show ?thesis
      by (simp add: GenerateDatabase_footage_def Let_def split: option.splits prod.splits)
  qed
  show "\<exists>evs. trace (snd (GenerateDatabase_footage env input sub table w)) = trace w @ evs
          \<and> (\<forall>b. EvIsCancelled b \<notin> set evs)"
    by (rule GenerateDatabase_footage_events)
  show "GenerateDatabase_loop fuel env node rng (kInput input # rest) database w =
          GenerateDatabase_loop fuel env node rng rest
            (Insert input
               (case RetrieveFromDecoder env opened sub of
                  None \<Rightarrow> [(kFootage, get_value_at_time input (tr_in sub))]
                | Some frame \<Rightarrow>
                    FrameToValue env (Some st) frame [(kFootage, get_value_at_time input (tr_in sub))])
               database)
            (emit [EvIsCancelled False, EvLock, EvCacheGet (Some (stream_ptr st)),
                   EvCreateFromID (footage_decoder st) (Some (stream_ptr st)),
                   EvOpen (Some (stream_ptr st)) True, EvCacheAdd (Some (stream_ptr st)), EvUnlock,
                   EvGetRetrieveState (Some (stream_ptr st)) (tr_out sub) kReady,
                   EvRetrieveFromDecoder (Some (stream_ptr st)) sub]
               (w\<lparr>decoder_cache := (decoder_cache w)(Some (stream_ptr st) \<mapsto> opened)\<rparr>))"
    if h: "length (trace w) < T \<and> data_type input = kFootage \<and> connected_node input = None
        \<and> value_StreamPtr (get_value_at_time input 0) = Some st
        \<and> decoder_cache w (Some (stream_ptr st)) = None
        \<and> Decoder_Open env (set_stream env (Some st) (CreateFromID env (footage_decoder st)))
            = (True, opened)
        \<and> sub = InputTimeAdjustment node input rng
        \<and> Decoder_GetRetrieveState env opened (tr_out sub) = kReady"
  proof -
    let ?w0 = "emit [EvIsCancelled False] w"
    let ?table = "[(kFootage, get_value_at_time input (tr_in sub))]"
    let ?k = "Some (stream_ptr st)"
    from h have lt: "length (trace w) < T" and dt: "data_type input = kFootage"
      and un: "connected_node input = None"
      and val: "value_StreamPtr (get_value_at_time input 0) = Some st"
      and miss0: "decoder_cache w (Some (stream_ptr st)) = None"
      and op: "Decoder_Open env (set_stream env (Some st) (CreateFromID env (footage_decoder st)))
        = (True, opened)"
      and sub: "InputTimeAdjustment node input rng = sub"
      and ready: "Decoder_GetRetrieveState env opened (tr_out sub) = kReady"
      by blast+
    from lt assms have nc: "\<not> IsCancelled env (trace w)" by (simp add: cancelled_from_def)
    from un dt have pi: "ProcessInput fuel env input sub ?w0 = Some (?table, ?w0)"
      by (simp add: Push_def)
    from miss0 have miss: "decoder_cache ?w0 ?k = None" by simp
    have "emit [EvLock, EvCacheGet ?k, EvCreateFromID (footage_decoder st) ?k,
               EvOpen ?k True, EvCacheAdd ?k, EvUnlock]
           (?w0\<lparr>decoder_cache := (decoder_cache ?w0)(?k \<mapsto> opened)\<rparr>)
        = emit [EvIsCancelled False, EvLock, EvCacheGet ?k, EvCreateFromID (footage_decoder st) ?k,
               EvOpen ?k True, EvCacheAdd ?k, EvUnlock]
           (w\<lparr>decoder_cache := (decoder_cache w)(?k \<mapsto> opened)\<rparr>)"
      by (simp add: emit_def)
    with op have r: "ResolveDecoderFromInput env (Some st) ?w0 =
        (Some opened,
         emit [EvIsCancelled False, EvLock, EvCacheGet ?k, EvCreateFromID (footage_decoder st) ?k,
               EvOpen ?k True, EvCacheAdd ?k, EvUnlock]
           (w\<lparr>decoder_cache := (decoder_cache w)(?k \<mapsto> opened)\<rparr>))"
      by (simp add: ResolveDecoderFromInput_miss [OF miss])
    from val have s: "ResolveStreamFromInput input = Some st"
      by (simp add: ResolveStreamFromInput_def)
    have f: "GenerateDatabase_footage env input sub ?table ?w0 =
        (case RetrieveFromDecoder env opened sub of
           None \<Rightarrow> ?table
         | Some frame \<Rightarrow> FrameToValue env (Some st) frame ?table,
         emit [EvIsCancelled False, EvLock, EvCacheGet ?k, EvCreateFromID (footage_decoder st) ?k,
               EvOpen ?k True, EvCacheAdd ?k, EvUnlock,
               EvGetRetrieveState ?k (tr_out sub) kReady, EvRetrieveFromDecoder ?k sub]
           (w\<lparr>decoder_cache := (decoder_cache w)(?k \<mapsto> opened)\<rparr>))"
      by (simp add: GenerateDatabase_footage_def s r ready Let_def emit_emit split: option.splits)
    have "GenerateDatabase_param fuel env node rng (kInput input) database ?w0 =
        Some (Insert input
               (case RetrieveFromDecoder env opened sub of
                  None \<Rightarrow> ?table
                | Some frame \<Rightarrow> FrameToValue env (Some st) frame ?table) database,
              emit [EvIsCancelled False, EvLock, EvCacheGet ?k, EvCreateFromID (footage_decoder st) ?k,
               EvOpen ?k True, EvCacheAdd ?k, EvUnlock,
               EvGetRetrieveState ?k (tr_out sub) kReady, EvRetrieveFromDecoder ?k sub]
                (w\<lparr>decoder_cache := (decoder_cache w)(?k \<mapsto> opened)\<rparr>))"
      using pi f dt by (simp add: GenerateDatabase_param_def sub del: ProcessInput.simps)
    with nc show ?thesis
      by (simp only: GenerateDatabase_loop_Cons if_False option.case prod.case)
  qed
  show "GenerateDatabase_loop fuel env node rng (param # next_param # rest) database w
            = Some (Map.empty, emit [EvIsCancelled True] w_after)"
    if "length (trace w) < T
        \<and> GenerateDatabase_param fuel env node rng param database (emit [EvIsCancelled False] w)
            = Some (database_after, w_after)
        \<and> T \<le> length (trace w_after)"
  proof -
    from that assms have "\<not> IsCancelled env (trace w)" by (simp add: cancelled_from_def)
    with that a [of w_after fuel node rng next_param rest database_after] show ?thesis
      by (simp only: GenerateDatabase_loop_Cons [of _ _ _ _ param] if_False option.case prod.case)
  qed
qed

text \<open>
  The claim as it is written fails where the flag is set just after the last poll: the
  media node's decoder is created, opened, asked and read after the flag is set, and
  the evaluation returns a table with the frame's value.
\<close>

theorem cancellation_is_polled_counterexample:
  "\<not> cancelled_from 2 [EvIsCancelled False]
   \<and> cancelled_from 2 [EvIsCancelled False, EvIsCancelled False]
   \<and> observed (ProcessNode 1 (oiio_worker png (cancelled_from 2)) frame_10_20 idle) =
      Some ([(kFootage, QStreamPtr (Some example_stream)), (kFootage, QOther 320)],
            [EvIsCancelled False, EvIsCancelled False, EvLock, EvCacheGet (Some 1),
             EvCreateFromID ''oiio'' (Some 1), EvOpen (Some 1) True, EvCacheAdd (Some 1), EvUnlock,
             EvGetRetrieveState (Some 1) 20 kReady,
             EvRetrieveFromDecoder (Some 1) \<lparr>tr_in = 10, tr_out = 20\<rparr>])"
  by (simp add: example_defs worker_defs observed_def)

text \<open>The footage input followed by another parameter, with the flag set right after the
  first poll.\<close>

theorem cancellation_is_polled_witness:
  "IsCancelled (oiio_worker png (cancelled_from 1)) = cancelled_from 1
   \<and> length (trace idle) < 1 \<and> cancelled_from 1 [EvIsCancelled False]
   \<and> data_type footage_input = kFootage \<and> connected_node footage_input = None
   \<and> value_StreamPtr (get_value_at_time footage_input 0) = Some example_stream
   \<and> decoder_cache idle (Some (stream_ptr example_stream)) = None
   \<and> Decoder_Open (oiio_worker png (cancelled_from 1))
         (set_stream (oiio_worker png (cancelled_from 1)) (Some example_stream)
            (CreateFromID (oiio_worker png (cancelled_from 1)) (footage_decoder example_stream)))
       = (True, opened_png)
   \<and> \<lparr>tr_in = 10, tr_out = 20\<rparr> = InputTimeAdjustment media_node footage_input \<lparr>tr_in = 10, tr_out = 20\<rparr>
   \<and> Decoder_GetRetrieveState (oiio_worker png (cancelled_from 1)) opened_png 20 = kReady
   \<and> GenerateDatabase_loop 0 (oiio_worker png (cancelled_from 1)) media_node \<lparr>tr_in = 10, tr_out = 20\<rparr>
        [kInput footage_input, kOutput 0] Map.empty idle
      = Some (Map.empty,
              emit [EvGetRetrieveState (Some 1) 20 kReady,
                    EvRetrieveFromDecoder (Some 1) \<lparr>tr_in = 10, tr_out = 20\<rparr>, EvIsCancelled True]
                (resolved (emit [EvIsCancelled False] idle)))"
proof -
  let ?env = "oiio_worker png (cancelled_from 1)"
  let ?R = "\<lparr>tr_in = 10, tr_out = 20\<rparr>"
  let ?table = "case RetrieveFromDecoder ?env opened_png ?R of
                  None \<Rightarrow> [(kFootage, get_value_at_time footage_input (tr_in ?R))]
                | Some frame \<Rightarrow>
                    FrameToValue ?env (Some example_stream) frame
                      [(kFootage, get_value_at_time footage_input (tr_in ?R))]"
  let ?after = "emit [EvIsCancelled False, EvLock, EvCacheGet (Some (stream_ptr example_stream)),
                   EvCreateFromID (footage_decoder example_stream) (Some (stream_ptr example_stream)),
                   EvOpen (Some (stream_ptr example_stream)) True,
                   EvCacheAdd (Some (stream_ptr example_stream)), EvUnlock,
                   EvGetRetrieveState (Some (stream_ptr example_stream)) (tr_out ?R) kReady,
                   EvRetrieveFromDecoder (Some (stream_ptr example_stream)) ?R]
               (idle\<lparr>decoder_cache :=
                  (decoder_cache idle)(Some (stream_ptr example_stream) \<mapsto> opened_png)\<rparr>)"
  have a: "IsCancelled ?env = cancelled_from 1" by (simp add: oiio_worker_def)
  have b: "length (trace idle) < 1" "cancelled_from 1 [EvIsCancelled False]"
    by (simp_all add: idle_def cancelled_from_def)
  have c: "data_type footage_input = kFootage" "connected_node footage_input = None"
    "value_StreamPtr (get_value_at_time footage_input 0) = Some example_stream"
    by (simp_all add: footage_input_def)
  have d: "decoder_cache idle (Some (stream_ptr example_stream)) = None" by (simp add: idle_def)
  have e: "Decoder_Open ?env (set_stream ?env (Some example_stream)
            (CreateFromID ?env (footage_decoder example_stream))) = (True, opened_png)"
    by (simp add: oiio_worker_def still_decoder_def example_stream_def png_def Open_def
        kRGBAChannels_def opened_png_def)
  have f: "?R = InputTimeAdjustment media_node footage_input ?R" by (simp add: media_node_def)
  have g: "Decoder_GetRetrieveState ?env opened_png 20 = kReady"
    by (simp add: oiio_worker_def opened_png_def GetRetrieveState_def)
  have g': "Decoder_GetRetrieveState ?env opened_png (tr_out ?R) = kReady"
    using g by simp
  note t1 = cancellation_is_polled [OF a, where w = idle and fuel = 0 and node = media_node
      and rng = ?R and input = footage_input and rest = "[kOutput 0]" and database = Map.empty
      and st = example_stream and opened = opened_png and sub = ?R]
  from t1 b(1) c d e f g' have step:
    "GenerateDatabase_loop 0 ?env media_node ?R (kInput footage_input # [kOutput 0]) Map.empty idle
      = GenerateDatabase_loop 0 ?env media_node ?R [kOutput 0]
          (Insert footage_input ?table Map.empty) ?after"
    by blast
  have len: "1 \<le> length (trace ?after)" by simp
  note t2 = cancellation_is_polled [OF a, where w = ?after and fuel = 0 and node = media_node
      and rng = ?R and param = "kOutput 0" and rest = "[]"
      and database = "Insert footage_input ?table Map.empty"]
  from t2 len have stop:
    "GenerateDatabase_loop 0 ?env media_node ?R [kOutput 0]
          (Insert footage_input ?table Map.empty) ?after
      = Some (Map.empty, emit [EvIsCancelled True] ?after)"
    by blast
  have same: "emit [EvIsCancelled True] ?after
      = emit [EvGetRetrieveState (Some 1) 20 kReady, EvRetrieveFromDecoder (Some 1) ?R, EvIsCancelled True]
          (resolved (emit [EvIsCancelled False] idle))"
    by (simp add: emit_def resolved_def example_stream_def)
  from step stop same have
    "GenerateDatabase_loop 0 ?env media_node ?R [kInput footage_input, kOutput 0] Map.empty idle
      = Some (Map.empty,
              emit [EvGetRetrieveState (Some 1) 20 kReady, EvRetrieveFromDecoder (Some 1) ?R,
                    EvIsCancelled True]
                (resolved (emit [EvIsCancelled False] idle)))"
    by (simp only:)
  with a b c d e f g show ?thesis by blast
qed

text \<open>
  Claim C7, as the code has it. \<open>ResolveDecoderFromInput\<close> takes the lock of the decoder
  cache before the \<open>Get\<close> and gives it back when it returns: whatever else it does (the
  \<open>Get\<close>, creating and opening a decoder, the \<open>Add\<close>, the warning) lies between the
  lock and the unlock. A resolution that follows one which returned a decoder for
  the same stream finds that decoder in the cache and creates nothing.
\<close>

theorem lock_spans_resolution:
  "(\<exists>evs. trace (snd (ResolveDecoderFromInput env stream w)) = trace w @ [EvLock] @ evs @ [EvUnlock]
      \<and> EvLock \<notin> set evs \<and> EvUnlock \<notin> set evs)
   \<and> (ResolveDecoderFromInput env (Some st) w = (Some d, w1) \<longrightarrow>
        ResolveDecoderFromInput env (Some st) w1
          = (Some d, emit [EvLock, EvCacheGet (Some (stream_ptr st)), EvUnlock] w1))"
proof
  show "\<exists>evs. trace (snd (ResolveDecoderFromInput env stream w)) = trace w @ [EvLock] @ evs @ [EvUnlock]
      \<and> EvLock \<notin> set evs \<and> EvUnlock \<notin> set evs"
  proof (cases stream)
    case None
    then show ?thesis by (simp add: ResolveDecoderFromInput_None)
  next
    case (Some s)
    show ?thesis
    proof (cases "decoder_cache w (Some (stream_ptr s))")
      case None
      then show ?thesis unfolding Some
        by (cases "Decoder_Open env (set_stream env (Some s) (CreateFromID env (footage_decoder s)))")
           (auto simp: ResolveDecoderFromInput_miss split: bool.splits)
    next
      case (Some d)
      then show ?thesis unfolding \<open>stream = Some s\<close>
        by (simp add: ResolveDecoderFromInput_hit)
    qed
  qed
next
  show "ResolveDecoderFromInput env (Some st) w = (Some d, w1) \<longrightarrow>
        ResolveDecoderFromInput env (Some st) w1
          = (Some d, emit [EvLock, EvCacheGet (Some (stream_ptr st)), EvUnlock] w1)"
  proof
    assume r: "ResolveDecoderFromInput env (Some st) w = (Some d, w1)"
    have "decoder_cache w1 (Some (stream_ptr st)) = Some d"
    proof (cases "decoder_cache w (Some (stream_ptr st))")
      case None
      with r show ?thesis
        by (auto simp: ResolveDecoderFromInput_miss split: prod.splits bool.splits)
    next
      case (Some d')
      with r show ?thesis
        by (auto simp: ResolveDecoderFromInput_hit)
    qed
    then show "ResolveDecoderFromInput env (Some st) w1
          = (Some d, emit [EvLock, EvCacheGet (Some (stream_ptr st)), EvUnlock] w1)"
      by (rule ResolveDecoderFromInput_hit)
  qed
qed

text \<open>
  The claim as it is written, that the lock is held around the \<open>Get\<close> only, fails: on a
  miss the decoder is created, opened and added before the unlock.
\<close>

theorem lock_spans_resolution_counterexample:
  "trace (snd (ResolveDecoderFromInput (oiio_worker png (cancelled_from 0)) (Some example_stream) idle))
    = [EvLock, EvCacheGet (Some 1), EvCreateFromID ''oiio'' (Some 1), EvOpen (Some 1) True,
       EvCacheAdd (Some 1), EvUnlock]"
  by (simp add: example_defs worker_defs)

text \<open>Two resolutions of the example stream, one after the other.\<close>

theorem lock_spans_resolution_witness:
  "ResolveDecoderFromInput (oiio_worker png (cancelled_from 0)) (Some example_stream) idle
     = (Some opened_png, resolved idle)
   \<and> ResolveDecoderFromInput (oiio_worker png (cancelled_from 0)) (Some example_stream) (resolved idle)
     = (Some opened_png, emit [EvLock, EvCacheGet (Some 1), EvUnlock] (resolved idle))"
proof -
  have a: "ResolveDecoderFromInput (oiio_worker png (cancelled_from 0)) (Some example_stream) idle
     = (Some opened_png, resolved idle)"
    by (rule resolve_png) (simp add: idle_def)
  have b: "stream_ptr example_stream = 1" by (simp add: example_stream_def)
  from lock_spans_resolution [of "oiio_worker png (cancelled_from 0)" "Some example_stream" idle
      example_stream opened_png "resolved idle"] a b
  show ?thesis by simp
qed

text \<open>
  Claim C9. For a footage-typed input that the database generation comes to with the
  flag clear, once \<open>ProcessInput\<close> has returned, the stream the worker goes on with is
  the input's own stored value at time 0, read as a stream pointer, whatever the range,
  the adjusted sub-range and the connection of the input: with no stream there the
  table is inserted as it is; with a stream there the worker locks the cache and asks
  it for that stream's decoder, and the loop goes on as the decoder found for that
  stream decides. Another input with the same value at time 0 gives the same footage
  step.
\<close>

theorem stream_from_own_value_at_zero:
  assumes "data_type input = kFootage"
    and "\<not> IsCancelled env (trace w)"
    and "sub = InputTimeAdjustment node input rng"
    and "ProcessInput fuel env input sub (emit [EvIsCancelled False] w) = Some (table, wa)"
    and "stream = value_StreamPtr (get_value_at_time input 0)"
  shows "ResolveStreamFromInput input = stream
    \<and> (stream = None \<longrightarrow>
          GenerateDatabase_loop fuel env node rng (kInput input # rest) database w
            = GenerateDatabase_loop fuel env node rng rest (Insert input table database) wa)
    \<and> (stream = Some st \<and> ResolveDecoderFromInput env stream wa = (decoder, wb) \<longrightarrow>
          take 2 (drop (length (trace wa)) (trace wb)) = [EvLock, EvCacheGet (Some (stream_ptr st))]
          \<and> GenerateDatabase_loop fuel env node rng (kInput input # rest) database w =
             (case decoder of
                None \<Rightarrow> GenerateDatabase_loop fuel env node rng rest (Insert input table database) wb
              | Some d \<Rightarrow>
                 (if Decoder_GetRetrieveState env d (tr_out sub) = kReady then
                    GenerateDatabase_loop fuel env node rng rest
                      (Insert input
                         (case RetrieveFromDecoder env d sub of
                            None \<Rightarrow> table
                          | Some frame \<Rightarrow> FrameToValue env (Some st) frame table) database)
                      (emit [EvGetRetrieveState (Some (stream_ptr st)) (tr_out sub) kReady,
                             EvRetrieveFromDecoder (Some (stream_ptr st)) sub] wb)
                  else
                    GenerateDatabase_loop fuel env node rng rest (Insert input table database)
                      (emit [EvGetRetrieveState (Some (stream_ptr st)) (tr_out sub)
                               (Decoder_GetRetrieveState env d (tr_out sub)),
                             EvFootageUnavailable (Some st)
                               (Decoder_GetRetrieveState env d (tr_out sub))
                               (dep_range (m_path wb)) (tr_out sub)] wb))))
    \<and> (get_value_at_time input' 0 = get_value_at_time input 0 \<longrightarrow>
          GenerateDatabase_footage env input' sub' table' w' =
          GenerateDatabase_footage env input sub' table' w')"
proof (intro conjI impI)
  show rs: "ResolveStreamFromInput input = stream"
    by (simp add: ResolveStreamFromInput_def assms(5))
  have step: "GenerateDatabase_loop fuel env node rng (kInput input # rest) database w =
      (case GenerateDatabase_footage env input sub table wa of
         (table1, wc) \<Rightarrow> GenerateDatabase_loop fuel env node rng rest (Insert input table1 database) wc)"
    using assms(1,2,4)
    by (simp only: GenerateDatabase_loop_Cons if_False)
       (simp add: GenerateDatabase_param_def assms(3) [symmetric] del: ProcessInput.simps
          split: prod.splits)
  show "GenerateDatabase_loop fuel env node rng (kInput input # rest) database w
            = GenerateDatabase_loop fuel env node rng rest (Insert input table database) wa"
    if "stream = None"
    using that rs unfolding step by (simp add: GenerateDatabase_footage_def)
  show "take 2 (drop (length (trace wa)) (trace wb)) = [EvLock, EvCacheGet (Some (stream_ptr st))]"
    if "stream = Some st \<and> ResolveDecoderFromInput env stream wa = (decoder, wb)"
  proof -
    from that have r: "ResolveDecoderFromInput env (Some st) wa = (decoder, wb)"
      by auto
    show ?thesis
    proof (cases "decoder_cache wa (Some (stream_ptr st))")
      case None
      with r show ?thesis
        by (auto simp: ResolveDecoderFromInput_miss split: prod.splits bool.splits)
    next
      case (Some d)
      with r show ?thesis
        by (auto simp: ResolveDecoderFromInput_hit)
    qed
  qed
  show "GenerateDatabase_loop fuel env node rng (kInput input # rest) database w =
             (case decoder of
                None \<Rightarrow> GenerateDatabase_loop fuel env node rng rest (Insert input table database) wb
              | Some d \<Rightarrow>
                 (if Decoder_GetRetrieveState env d (tr_out sub) = kReady then
                    GenerateDatabase_loop fuel env node rng rest
                      (Insert input
                         (case RetrieveFromDecoder env d sub of
                            None \<Rightarrow> table
                          | Some frame \<Rightarrow> FrameToValue env (Some st) frame table) database)
                      (emit [EvGetRetrieveState (Some (stream_ptr st)) (tr_out sub) kReady,
                             EvRetrieveFromDecoder (Some (stream_ptr st)) sub] wb)
                  else
                    GenerateDatabase_loop fuel env node rng rest (Insert input table database)
                      (emit [EvGetRetrieveState (Some (stream_ptr st)) (tr_out sub)
                               (Decoder_GetRetrieveState env d (tr_out sub)),
                             EvFootageUnavailable (Some st)
                               (Decoder_GetRetrieveState env d (tr_out sub))
                               (dep_range (m_path wb)) (tr_out sub)] wb)))"
    if "stream = Some st \<and> ResolveDecoderFromInput env stream wa = (decoder, wb)"
  proof -
    have "GenerateDatabase_footage env input sub table wa =
        (case decoder of
           None \<Rightarrow> (table, wb)
         | Some d \<Rightarrow>
            (if Decoder_GetRetrieveState env d (tr_out sub) = kReady then
               (case RetrieveFromDecoder env d sub of
                  None \<Rightarrow> table
                | Some frame \<Rightarrow> FrameToValue env (Some st) frame table,
                emit [EvGetRetrieveState (Some (stream_ptr st)) (tr_out sub) kReady,
                      EvRetrieveFromDecoder (Some (stream_ptr st)) sub] wb)
             else
               (table,
                emit [EvGetRetrieveState (Some (stream_ptr st)) (tr_out sub)
                        (Decoder_GetRetrieveState env d (tr_out sub)),
                      EvFootageUnavailable (Some st)
                        (Decoder_GetRetrieveState env d (tr_out sub))
                        (dep_range (m_path wb)) (tr_out sub)] wb)))"
    proof -
      from that have s: "stream = Some st"
        and r: "ResolveDecoderFromInput env (Some st) wa = (decoder, wb)"
        by auto
      from rs s r show ?thesis
        by (simp add: GenerateDatabase_footage_def ReportUnavailableFootage_def Let_def emit_emit
            split: option.splits)
    qed
    then show ?thesis
      unfolding step by (simp split: option.splits)
  qed
  show "GenerateDatabase_footage env input' sub' table' w' =
          GenerateDatabase_footage env input sub' table' w'"
    if "get_value_at_time input' 0 = get_value_at_time input 0"
    using that by (simp add: GenerateDatabase_footage_def ResolveStreamFromInput_def)
qed

text \<open>A footage input that is connected to the title node and holds the stream at time 0
  only, resolved over the range from 10 to 20.\<close>

theorem stream_from_own_value_at_zero_witness:
  "data_type keyed_input = kFootage \<and> connected_node keyed_input = Some 0
   \<and> get_value_at_time keyed_input 10 = QInvalid
   \<and> \<not> IsCancelled (oiio_worker png (cancelled_from 100)) (trace idle)
   \<and> \<lparr>tr_in = 10, tr_out = 20\<rparr> = InputTimeAdjustment media_node keyed_input \<lparr>tr_in = 10, tr_out = 20\<rparr>
   \<and> ProcessInput 1 (oiio_worker png (cancelled_from 100)) keyed_input \<lparr>tr_in = 10, tr_out = 20\<rparr>
        (emit [EvIsCancelled False] idle)
      = Some ([(kOtherType 1, QOther 0)],
              emit [EvIsCancelled False, EvIsCancelled False, EvIsCancelled False] idle)
   \<and> Some example_stream = value_StreamPtr (get_value_at_time keyed_input 0)
   \<and> ResolveDecoderFromInput (oiio_worker png (cancelled_from 100)) (Some example_stream)
        (emit [EvIsCancelled False, EvIsCancelled False, EvIsCancelled False] idle)
      = (Some opened_png,
         resolved (emit [EvIsCancelled False, EvIsCancelled False, EvIsCancelled False] idle))
   \<and> GenerateDatabase_loop 1 (oiio_worker png (cancelled_from 100)) media_node
        \<lparr>tr_in = 10, tr_out = 20\<rparr> [kInput keyed_input] Map.empty idle
      = Some ([4 \<mapsto> [(kOtherType 1, QOther 0), (kFootage, QOther 320)]],
              emit [EvGetRetrieveState (Some 1) 20 kReady,
                    EvRetrieveFromDecoder (Some 1) \<lparr>tr_in = 10, tr_out = 20\<rparr>]
                (resolved (emit [EvIsCancelled False, EvIsCancelled False, EvIsCancelled False] idle)))"
proof -
  let ?env = "oiio_worker png (cancelled_from 100)"
  let ?R = "\<lparr>tr_in = 10, tr_out = 20\<rparr>"
  let ?w1 = "emit [EvIsCancelled False, EvIsCancelled False, EvIsCancelled False] idle"
  have a: "data_type keyed_input = kFootage" by (simp add: keyed_input_def)
  have b: "connected_node keyed_input = Some 0" "get_value_at_time keyed_input 10 = QInvalid"
    by (simp_all add: keyed_input_def)
  have c: "\<not> IsCancelled ?env (trace idle)"
    by (simp add: oiio_worker_def cancelled_from_def idle_def)
  have d: "?R = InputTimeAdjustment media_node keyed_input ?R" by (simp add: media_node_def)
  have e: "ProcessInput 1 ?env keyed_input ?R (emit [EvIsCancelled False] idle)
      = Some ([(kOtherType 1, QOther 0)], ?w1)"
    by (simp add: example_defs worker_defs keyed_input_def)
  have f: "Some example_stream = value_StreamPtr (get_value_at_time keyed_input 0)"
    by (simp add: keyed_input_def)
  have g: "ResolveDecoderFromInput ?env (Some example_stream) ?w1 = (Some opened_png, resolved ?w1)"
    by (rule resolve_png) (simp add: idle_def)
  have h: "Decoder_GetRetrieveState ?env opened_png 20 = kReady"
    "RetrieveFromDecoder ?env opened_png ?R
       = Some \<lparr>frame_width = 320, frame_height = 240, frame_format = PIX_FMT_RGBA8\<rparr>"
    "\<And>s f t. FrameToValue ?env s f t = t @ [(kFootage, QOther (nat (frame_width f)))]"
    "stream_ptr example_stream = 1" "input_id keyed_input = 4"
    by (simp_all add: oiio_worker_def opened_png_def GetRetrieveState_def RetrieveVideo_def
        int_div_def INT_MIN_def Push_def example_stream_def keyed_input_def)
  note t = stream_from_own_value_at_zero [where st = example_stream
      and decoder = "Some opened_png" and wb = "resolved ?w1" and rest = "[]"
      and database = Map.empty and input' = keyed_input and sub' = ?R and table' = "[]" and w' = idle,
      OF a c d e f]
  from t g have "GenerateDatabase_loop 1 ?env media_node ?R [kInput keyed_input] Map.empty idle
      = Some ([4 \<mapsto> [(kOtherType 1, QOther 0), (kFootage, QOther 320)]],
              emit [EvGetRetrieveState (Some 1) 20 kReady, EvRetrieveFromDecoder (Some 1) ?R]
                (resolved ?w1))"
    by (simp add: h Insert_def del: GenerateDatabase_loop.simps(2))
  with a b c d e f g show ?thesis by blast
qed

end
